theory Spec2Isabelle
  imports Complex_Main "HOL-Library.Sublist" "HOL-Library.Multiset"
begin

section \<open>Python string and path primitives used by the sources\<close>

text \<open>
  Strings are byte lists. The helpers below give the behaviour of the Python
  built-ins the sources call: \<^verbatim>\<open>str.split(sep)\<close>, \<^verbatim>\<open>str.split(sep, 1)\<close>,
  \<^verbatim>\<open>sep.join\<close>, \<^verbatim>\<open>str.replace\<close>, \<^verbatim>\<open>str.startswith\<close>/\<^verbatim>\<open>endswith\<close>,
  \<^verbatim>\<open>a in b\<close> on strings, \<^verbatim>\<open>str(int)\<close>, \<^verbatim>\<open>os.path.join\<close>,
  \<^verbatim>\<open>os.path.basename\<close> and \<^verbatim>\<open>pathlib.Path.suffix\<close>.
\<close>

fun split_on :: "char \<Rightarrow> string \<Rightarrow> string list" where
  "split_on sep [] = [[]]"
| "split_on sep (c # cs) =
     (if c = sep then [] # split_on sep cs
      else (case split_on sep cs of
              [] \<Rightarrow> [[c]]
            | p # ps \<Rightarrow> (c # p) # ps))"

definition split_first :: "char \<Rightarrow> string \<Rightarrow> string \<times> string" where
  \<comment> \<open>\<^verbatim>\<open>s.split(sep, 1)\<close> for a string that contains \<open>sep\<close>\<close>
  "split_first sep s =
     (takeWhile (\<lambda>c. c \<noteq> sep) s, drop 1 (dropWhile (\<lambda>c. c \<noteq> sep) s))"


definition startswith :: "string \<Rightarrow> string \<Rightarrow> bool" where
  "startswith s p = prefix p s"

definition endswith :: "string \<Rightarrow> string \<Rightarrow> bool" where
  "endswith s p = suffix p s"

fun contains_str :: "string \<Rightarrow> string \<Rightarrow> bool" where
  \<comment> \<open>\<^verbatim>\<open>needle in hay\<close>\<close>
  "contains_str needle [] = (needle = [])"
| "contains_str needle (c # cs) = (prefix needle (c # cs) \<or> contains_str needle cs)"

function replace_all :: "string \<Rightarrow> string \<Rightarrow> string \<Rightarrow> string" where
  \<comment> \<open>\<^verbatim>\<open>s.replace(old, new)\<close> for a non-empty \<open>old\<close>: leftmost, non-overlapping\<close>
  "replace_all old new s =
     (if old = [] \<or> s = [] then s
      else if prefix old s then new @ replace_all old new (drop (length old) s)
      else hd s # replace_all old new (tl s))"
  by pat_completeness auto
termination
  by (relation "measure (\<lambda>(old, new, s). length s)") auto

function digits_of :: "nat \<Rightarrow> string" where
  "digits_of n =
     (if n < 10 then [''0123456789'' ! n]
      else digits_of (n div 10) @ [''0123456789'' ! (n mod 10)])"
  by pat_completeness auto
termination
  by (relation "measure id") auto

definition str_int :: "int \<Rightarrow> string" where
  \<comment> \<open>\<^verbatim>\<open>str(i)\<close>\<close>
  "str_int i = (if i < 0 then CHR ''-'' # digits_of (nat (- i)) else digits_of (nat i))"

definition path_join :: "string \<Rightarrow> string \<Rightarrow> string" where
  \<comment> \<open>\<^verbatim>\<open>os.path.join(a, b)\<close> on POSIX\<close>
  "path_join a b =
     (if startswith b ''/'' then b
      else if a = [] \<or> endswith a ''/'' then a @ b
      else a @ ''/'' @ b)"

definition basename :: "string \<Rightarrow> string" where
  \<comment> \<open>\<^verbatim>\<open>os.path.basename(p)\<close>: what follows the last slash\<close>
  "basename p = rev (takeWhile (\<lambda>c. c \<noteq> CHR ''/'') (rev p))"

definition lower_char :: "char \<Rightarrow> char" where
  "lower_char c =
     (case map_of (zip ''ABCDEFGHIJKLMNOPQRSTUVWXYZ'' ''abcdefghijklmnopqrstuvwxyz'') c of
        Some l \<Rightarrow> l
      | None \<Rightarrow> c)"

definition lower :: "string \<Rightarrow> string" where
  "lower s = map lower_char s"

definition path_name :: "string \<Rightarrow> string" where
  \<comment> \<open>\<^verbatim>\<open>Path(p).name\<close>: the last component that is neither empty nor \<open>.\<close>\<close>
  "path_name p =
     (case filter (\<lambda>c. c \<noteq> [] \<and> c \<noteq> ''.'') (split_on CHR ''/'' p) of
        [] \<Rightarrow> []
      | cs \<Rightarrow> last cs)"

definition path_suffix :: "string \<Rightarrow> string" where
  \<comment> \<open>\<^verbatim>\<open>Path(p).suffix\<close>: from the last dot of the name, when that dot is
      neither its first nor its last character\<close>
  "path_suffix p =
     (let name = path_name p;
          after = takeWhile (\<lambda>c. c \<noteq> CHR ''.'') (rev name)
      in if length after < length name \<and> 0 < length after \<and> length after + 1 < length name
         then CHR ''.'' # rev after else [])"

section \<open>The file system and the workspace tree\<close>

text \<open>
  A path holds a regular text file with its stored content, a text file that
  can be read but not opened for writing, or something on which \<^verbatim>\<open>open\<close>
  raises (a directory, an undecodable file); the string is then the text of the
  exception. A path that is not in the map does not exist. The workspace tree
  is what \<^verbatim>\<open>os.walk\<close> enumerates: per directory the file names and the
  sub-directories, in listing order.
\<close>

datatype node = File string | ReadOnly string | Unreadable string

type_synonym filesystem = "string \<rightharpoonup> node"

definition path_exists :: "filesystem \<Rightarrow> string \<Rightarrow> bool" where
  "path_exists fs p = (fs p \<noteq> None)"

fun universal_newlines :: "string \<Rightarrow> string" where
  \<comment> \<open>what text-mode reading does to the stored content: a carriage return,
      alone or followed by a line feed, is read as one line feed\<close>
  "universal_newlines [] = []"
| "universal_newlines [c] = [if c = CHR 0x0D then CHR 0x0A else c]"
| "universal_newlines (c # d # cs) =
     (if c = CHR 0x0D \<and> d = CHR 0x0A then CHR 0x0A # universal_newlines cs
      else if c = CHR 0x0D then CHR 0x0A # universal_newlines (d # cs)
      else c # universal_newlines (d # cs))"

definition read_text :: "filesystem \<Rightarrow> string \<Rightarrow> string + string" where
  \<comment> \<open>\<^verbatim>\<open>open(p, 'r', encoding='utf-8').read()\<close>: \<open>Inl\<close> carries the text of
      the exception\<close>
  "read_text fs p =
     (case fs p of
        Some (File c) \<Rightarrow> Inr (universal_newlines c)
      | Some (ReadOnly c) \<Rightarrow> Inr (universal_newlines c)
      | Some (Unreadable e) \<Rightarrow> Inl e
      | None \<Rightarrow> Inl (''[Errno 2] No such file or directory: ''
                      @ [CHR 0x27] @ p @ [CHR 0x27]))"


datatype dir_tree = Dir (dir_files: "string list") (dir_subdirs: "(string \<times> dir_tree) list")

fun walk :: "bool \<Rightarrow> string \<Rightarrow> dir_tree \<Rightarrow> (string \<times> string list) list" where
  \<comment> \<open>\<^verbatim>\<open>os.walk(root)\<close>, top-down, as the list of \<open>(dirpath, files)\<close>; with
      \<open>skip_hidden\<close> the directories whose name starts with a dot are pruned\<close>
  "walk skip_hidden dirpath (Dir files subdirs) =
     (dirpath, files) #
     concat (map (\<lambda>(d, t). walk skip_hidden (path_join dirpath d) t)
               (filter (\<lambda>(d, t). \<not> (skip_hidden \<and> startswith d ''.'')) subdirs))"

record workspace =
  ws_fs :: filesystem
  ws_root :: string
  ws_tree :: dir_tree

section \<open>Query parsing\<close>

fun find_in_walk :: "string \<Rightarrow> (string \<times> string list) list \<Rightarrow> string option" where
  "find_in_walk file_name [] = None"
| "find_in_walk file_name ((dirpath, files) # rest) =
     (if file_name \<in> set files then Some (path_join dirpath file_name)
      else find_in_walk file_name rest)"

definition find_file_in_workspace :: "workspace \<Rightarrow> string \<Rightarrow> string option" where
  "find_file_in_workspace ws file_name =
     find_in_walk file_name (walk False (ws_root ws) (ws_tree ws))"

definition parse_query :: "workspace \<Rightarrow> string \<Rightarrow> string option \<times> string" where
  "parse_query ws query =
     (if CHR '':'' \<in> set query then
        (let (file_part, symbol_part) = split_first CHR '':'' query in
         if path_exists (ws_fs ws) file_part then (Some file_part, symbol_part)
         else (case find_file_in_workspace ws file_part of
                 Some found_file \<Rightarrow> (Some found_file, symbol_part)
               | None \<Rightarrow> (None, symbol_part)))
      else if CHR ''.'' \<in> set query \<and> length (split_on CHR ''.'' query) = 2
        then (None, split_on CHR ''.'' query ! 1)
      else (None, query))"

section \<open>Line edits\<close>














section \<open>Backend sessions: requests and replies\<close>

text \<open>
  A call into a backend returns a value, raises, or never returns (the read
  loop of \<^verbatim>\<open>_request\<close> has no exit but a reply with the right id).
\<close>

datatype 'a outcome = Returned 'a | Raised string | Hang

text \<open>
  The dictionaries a backend sends in its replies, with the keys the sources
  read. A span is a \<^verbatim>\<open>location\<close> or \<^verbatim>\<open>range\<close> object: its
  \<^verbatim>\<open>start\<close> key (when present, with its \<^verbatim>\<open>line\<close> when present) and
  whether it has any other key, which decides its truth value.
\<close>

record span =
  sp_start :: "int option option"
  sp_other_keys :: bool

record lsp_dict =
  d_name :: "string option"
  d_kind :: "int option"
  d_location :: "span option"
  d_range :: "span option"
  d_detail :: "string option"
  d_uri :: "string option"

text \<open>
  The \<^verbatim>\<open>result\<close> of a reply is any JSON value: null, an array of
  dictionaries, an object (its keys, in order), a string, or a number or
  boolean (its truth value: false for \<^verbatim>\<open>0\<close> and \<^verbatim>\<open>false\<close>). Indexing
  or iterating over a result yields dictionaries, or strings (the keys of an
  object, the characters of a string).
\<close>

datatype lsp_value =
    Null
  | Items "lsp_dict list"
  | Obj "string list"
  | Str string
  | Num bool

datatype item = Dict lsp_dict | Key string

definition truthy :: "lsp_value \<Rightarrow> bool" where
  "truthy v =
     (case v of
        Null \<Rightarrow> False
      | Items ds \<Rightarrow> ds \<noteq> []
      | Obj ks \<Rightarrow> ks \<noteq> []
      | Str s \<Rightarrow> s \<noteq> []
      | Num b \<Rightarrow> b)"

definition iterate :: "lsp_value \<Rightarrow> string + item list" where
  \<comment> \<open>\<^verbatim>\<open>for x in v\<close>: the elements, or the exception\<close>
  "iterate v =
     (case v of
        Null \<Rightarrow> Inl ''TypeError''
      | Items ds \<Rightarrow> Inr (map Dict ds)
      | Obj ks \<Rightarrow> Inr (map Key ks)
      | Str s \<Rightarrow> Inr (map (\<lambda>c. Key [c]) s)
      | Num b \<Rightarrow> Inl ''TypeError'')"

definition first_five :: "lsp_value \<Rightarrow> string + item list" where
  \<comment> \<open>\<^verbatim>\<open>for x in v[:5]\<close>: the elements, or the exception\<close>
  "first_five v =
     (case v of
        Null \<Rightarrow> Inl ''TypeError''
      | Items ds \<Rightarrow> Inr (map Dict (take 5 ds))
      | Obj ks \<Rightarrow> Inl ''TypeError''
      | Str s \<Rightarrow> Inr (map (\<lambda>c. Key [c]) (take 5 s))
      | Num b \<Rightarrow> Inl ''TypeError'')"

record message =
  m_id :: "int option"
  m_error :: "string option"
  m_result :: "lsp_value option"

text \<open>
  What \<^verbatim>\<open>_read_message\<close> hands to the loop: nothing, bytes that do not
  decode (the decoder raises), or a message. The inbound stream of a session
  is the list of frames its backend will send; past its end every read
  returns nothing.
\<close>

datatype frame = NoFrame | BadFrame string | Frame message

datatype params =
    InitializeParams
  | NoParams
  | DefinitionParams string int int
  | ReferenceParams string int int
  | DocumentParams string

record out_msg =
  om_id :: "int option"
  om_method :: string
  om_params :: params

record session =
  s_language :: string
  s_command :: "string list"
  s_running :: bool
  s_request_id :: int
  s_inbound :: "frame list"
  s_outbound :: "out_msg list"

fun read_until :: "int \<Rightarrow> frame list \<Rightarrow> lsp_value outcome \<times> frame list" where
  \<comment> \<open>the \<^verbatim>\<open>while True\<close> loop of \<^verbatim>\<open>_request\<close>; a missing result is \<open>Null\<close>\<close>
  "read_until msg_id [] = (Hang, [])"
| "read_until msg_id (NoFrame # rest) = read_until msg_id rest"
| "read_until msg_id (BadFrame e # rest) = (Raised e, rest)"
| "read_until msg_id (Frame msg # rest) =
     (if m_id msg = Some msg_id then
        (case m_error msg of
           Some err \<Rightarrow> (Raised (''LSP error: '' @ err), rest)
         | None \<Rightarrow> (Returned (case m_result msg of Some r \<Rightarrow> r | None \<Rightarrow> Null), rest))
      else read_until msg_id rest)"

definition request :: "session \<Rightarrow> string \<Rightarrow> params \<Rightarrow> lsp_value outcome \<times> session" where
  "request s method ps =
     (if \<not> s_running s then
        (Raised ''AttributeError'', s\<lparr>s_request_id := s_request_id s + 1\<rparr>)
      else
        (let msg_id = s_request_id s + 1;
             out = s_outbound s @ [\<lparr>om_id = Some msg_id, om_method = method, om_params = ps\<rparr>];
             (res, rest) = read_until msg_id (s_inbound s)
         in (res, s\<lparr>s_request_id := msg_id, s_outbound := out, s_inbound := rest\<rparr>)))"

definition notify :: "session \<Rightarrow> string \<Rightarrow> params \<Rightarrow> session" where
  "notify s method ps =
     s\<lparr>s_outbound := s_outbound s @ [\<lparr>om_id = None, om_method = method, om_params = ps\<rparr>]\<rparr>"

definition session_start ::
  "(string list \<Rightarrow> string + frame list) \<Rightarrow> string \<Rightarrow> string list \<Rightarrow> unit outcome \<times> session" where
  \<comment> \<open>\<^verbatim>\<open>LSPServerProcess(language, command).start()\<close>; \<open>spawn\<close> is the operating
      system: the error of \<^verbatim>\<open>Popen\<close>, or the frames the new process will send\<close>
  "session_start spawn language command =
     (let s0 = \<lparr>s_language = language, s_command = command, s_running = False,
                s_request_id = 0, s_inbound = [], s_outbound = []\<rparr>
      in case spawn command of
           Inl e \<Rightarrow> (Raised e, s0)
         | Inr frames \<Rightarrow>
             (case request (s0\<lparr>s_running := True, s_inbound := frames\<rparr>) ''initialize'' InitializeParams of
                (Returned r, s1) \<Rightarrow> (Returned (), notify s1 ''initialized'' NoParams)
              | (Raised e, s1) \<Rightarrow> (Raised e, s1)
              | (Hang, s1) \<Rightarrow> (Hang, s1)))"

definition session_get_definition ::
  "session \<Rightarrow> string \<Rightarrow> int \<Rightarrow> int \<Rightarrow> item option outcome \<times> session" where
  \<comment> \<open>\<^verbatim>\<open>return result[0] if result else None\<close>\<close>
  "session_get_definition s file_uri line character =
     (case request s ''textDocument/definition'' (DefinitionParams file_uri line character) of
        (Returned r, s') \<Rightarrow>
          (if truthy r then
             (case r of
                Items ds \<Rightarrow> (Returned (Some (Dict (hd ds))), s')
              | Str t \<Rightarrow> (Returned (Some (Key [hd t])), s')
              | Obj ks \<Rightarrow> (Raised ''KeyError: 0'', s')
              | _ \<Rightarrow> (Raised ''TypeError'', s'))
           else (Returned None, s'))
      | (Raised e, s') \<Rightarrow> (Raised e, s')
      | (Hang, s') \<Rightarrow> (Hang, s'))"

definition or_empty :: "lsp_value outcome \<times> session \<Rightarrow> lsp_value outcome \<times> session" where
  \<comment> \<open>\<^verbatim>\<open>return result or []\<close>: the result itself when it is true, the empty
      list for null, an empty array, an empty object, an empty string, zero and
      false\<close>
  "or_empty r =
     (case r of
        (Returned v, s') \<Rightarrow> (Returned (if truthy v then v else Items []), s')
      | (Raised e, s') \<Rightarrow> (Raised e, s')
      | (Hang, s') \<Rightarrow> (Hang, s'))"

definition session_get_references ::
  "session \<Rightarrow> string \<Rightarrow> int \<Rightarrow> int \<Rightarrow> lsp_value outcome \<times> session" where
  "session_get_references s file_uri line character =
     or_empty (request s ''textDocument/references'' (ReferenceParams file_uri line character))"

definition session_get_symbols :: "session \<Rightarrow> string \<Rightarrow> lsp_value outcome \<times> session" where
  "session_get_symbols s file_uri =
     or_empty (request s ''textDocument/documentSymbol'' (DocumentParams file_uri))"

section \<open>The session registry\<close>

record lsp_env =
  le_spawn :: "string list \<Rightarrow> string + frame list"
  le_abspath :: "string \<Rightarrow> string"

record client =
  c_servers :: "string \<rightharpoonup> session"
  c_initialized :: bool

definition LANGUAGE_SERVERS :: "(string \<times> string list) list" where
  "LANGUAGE_SERVERS =
     [(''python'', [''pylsp'']),
      (''typescript'', [''typescript-language-server'', ''--stdio'']),
      (''javascript'', [''typescript-language-server'', ''--stdio'']),
      (''bash'', [''bash-language-server'', ''start'']),
      (''go'', [''gopls'', ''serve''])]"

definition language_map :: "(string \<times> string) list" where
  "language_map =
     [(''.py'', ''python''), (''.ts'', ''typescript''), (''.tsx'', ''typescript''),
      (''.js'', ''javascript''), (''.jsx'', ''javascript''), (''.sh'', ''bash''),
      (''.bash'', ''bash''), (''.go'', ''go'')]"

definition get_language_from_file :: "string \<Rightarrow> string" where
  "get_language_from_file file_path =
     (case map_of language_map (lower (path_suffix file_path)) of
        Some l \<Rightarrow> l
      | None \<Rightarrow> ''unknown'')"

definition start_server :: "lsp_env \<Rightarrow> client \<Rightarrow> string \<Rightarrow> unit outcome \<times> client" where
  "start_server env c language =
     (case map_of LANGUAGE_SERVERS language of
        None \<Rightarrow> (Returned (), c)
      | Some command \<Rightarrow>
          (if c_servers c language = None then
             (case session_start (le_spawn env) language command of
                (Returned u, s) \<Rightarrow> (Returned (), c\<lparr>c_servers := (c_servers c)(language \<mapsto> s)\<rparr>)
              | (Raised e, s) \<Rightarrow> (Raised e, c)
              | (Hang, s) \<Rightarrow> (Hang, c))
           else (Returned (), c)))"

definition get_definition ::
  "lsp_env \<Rightarrow> client \<Rightarrow> string \<Rightarrow> int \<times> int \<Rightarrow> item option outcome \<times> client" where
  "get_definition env c file_path position =
     (let language = get_language_from_file file_path
      in case start_server env c language of
           (Raised e, c1) \<Rightarrow> (Raised e, c1)
         | (Hang, c1) \<Rightarrow> (Hang, c1)
         | (Returned u, c1) \<Rightarrow>
             (case c_servers c1 language of
                Some s \<Rightarrow>
                  (let file_uri = ''file://'' @ le_abspath env file_path;
                       (r, s') = session_get_definition s file_uri (fst position) (snd position)
                   in (r, c1\<lparr>c_servers := (c_servers c1)(language \<mapsto> s')\<rparr>))
              | None \<Rightarrow> (Returned None, c1)))"

definition get_references ::
  "lsp_env \<Rightarrow> client \<Rightarrow> string \<Rightarrow> int \<times> int \<Rightarrow> lsp_value outcome \<times> client" where
  "get_references env c file_path position =
     (let language = get_language_from_file file_path
      in case start_server env c language of
           (Raised e, c1) \<Rightarrow> (Raised e, c1)
         | (Hang, c1) \<Rightarrow> (Hang, c1)
         | (Returned u, c1) \<Rightarrow>
             (case c_servers c1 language of
                Some s \<Rightarrow>
                  (let file_uri = ''file://'' @ le_abspath env file_path;
                       (r, s') = session_get_references s file_uri (fst position) (snd position)
                   in (r, c1\<lparr>c_servers := (c_servers c1)(language \<mapsto> s')\<rparr>))
              | None \<Rightarrow> (Returned (Items []), c1)))"

definition get_symbols ::
  "lsp_env \<Rightarrow> client \<Rightarrow> string \<Rightarrow> lsp_value outcome \<times> client" where
  "get_symbols env c file_path =
     (let language = get_language_from_file file_path
      in case start_server env c language of
           (Raised e, c1) \<Rightarrow> (Raised e, c1)
         | (Hang, c1) \<Rightarrow> (Hang, c1)
         | (Returned u, c1) \<Rightarrow>
             (case c_servers c1 language of
                Some s \<Rightarrow>
                  (let file_uri = ''file://'' @ le_abspath env file_path;
                       (r, s') = session_get_symbols s file_uri
                   in (r, c1\<lparr>c_servers := (c_servers c1)(language \<mapsto> s')\<rparr>))
              | None \<Rightarrow> (Returned (Items []), c1)))"

definition passed_over :: "int \<Rightarrow> frame \<Rightarrow> bool" where
  \<comment> \<open>the frames the read loop drops while it waits for \<open>msg_id\<close>\<close>
  "passed_over msg_id f =
     (case f of
        NoFrame \<Rightarrow> True
      | BadFrame e \<Rightarrow> False
      | Frame msg \<Rightarrow> m_id msg \<noteq> Some msg_id)"

definition result_of :: "message \<Rightarrow> lsp_value" where
  \<comment> \<open>\<^verbatim>\<open>msg.get("result")\<close>\<close>
  "result_of msg = (case m_result msg of Some r \<Rightarrow> r | None \<Rightarrow> Null)"

definition mapped_extensions :: "string set" where
  "mapped_extensions = {''.py'', ''.ts'', ''.tsx'', ''.js'', ''.jsx'', ''.sh'', ''.bash'', ''.go''}"

section \<open>The result cache\<close>

text \<open>
  \<^verbatim>\<open>CacheManager\<close> keeps its entries in a \<^verbatim>\<open>cachetools.TTLCache\<close>, a
  library outside the repository. The definitions of this section down to
  \<open>ttl_get\<close> give the behaviour of that class as its documentation and
  source describe it: a value larger than \<^verbatim>\<open>maxsize\<close> is refused with
  \<^verbatim>\<open>ValueError\<close>; otherwise entries are evicted, least recently used
  first, until the new value fits; every store and every eviction first drops
  the entries whose lifetime is over. The entries are listed in the order of
  use, least recent first; the clock is \<^verbatim>\<open>time.monotonic\<close>, read once
  per operation.
\<close>

record entry =
  en_key :: string
  en_value :: string
  en_size :: int
  en_expires :: real

record ttl_cache =
  tc_maxsize :: int
  tc_ttl :: int
  tc_entries :: "entry list"
  tc_currsize :: int

definition get_size :: "string \<Rightarrow> int" where
  \<comment> \<open>\<^verbatim>\<open>CacheManager._get_size\<close>: the number of bytes of the value\<close>
  "get_size v = int (length v)"

definition expire :: "real \<Rightarrow> ttl_cache \<Rightarrow> ttl_cache" where
  "expire t c =
     c\<lparr>tc_entries := filter (\<lambda>e. t < en_expires e) (tc_entries c),
       tc_currsize := tc_currsize c
                      - sum_list (map en_size (filter (\<lambda>e. \<not> t < en_expires e) (tc_entries c)))\<rparr>"

definition popitem :: "real \<Rightarrow> ttl_cache \<Rightarrow> string option \<times> ttl_cache" where
  \<comment> \<open>the first component is the exception, when one is raised\<close>
  "popitem t c =
     (let c1 = expire t c
      in case tc_entries c1 of
           [] \<Rightarrow> (Some ''KeyError'', c1)
         | e # es \<Rightarrow> (None, c1\<lparr>tc_entries := es, tc_currsize := tc_currsize c1 - en_size e\<rparr>))"

function evict_loop :: "real \<Rightarrow> int \<Rightarrow> ttl_cache \<Rightarrow> string option \<times> ttl_cache" where
  \<comment> \<open>\<^verbatim>\<open>while currsize + size > maxsize: self.popitem()\<close>\<close>
  "evict_loop t sz c =
     (if tc_currsize c + sz > tc_maxsize c then
        (case popitem t c of
           (Some e, c') \<Rightarrow> (Some e, c')
         | (None, c') \<Rightarrow> evict_loop t sz c')
      else (None, c))"
  by pat_completeness auto
termination
  apply (relation "measure (\<lambda>(t, sz, c). length (tc_entries c))")
   apply simp
  subgoal for t sz c x c'
    apply (auto simp: popitem_def expire_def Let_def split: list.splits)
    apply (metis length_filter_le length_Cons Suc_le_lessD)
    done
  done

declare evict_loop.simps [simp del]

definition size_of_key :: "ttl_cache \<Rightarrow> string \<Rightarrow> int option" where
  "size_of_key c key = map_option en_size (find (\<lambda>e. en_key e = key) (tc_entries c))"

definition store :: "real \<Rightarrow> ttl_cache \<Rightarrow> string \<Rightarrow> string \<Rightarrow> ttl_cache" where
  \<comment> \<open>the end of \<^verbatim>\<open>__setitem__\<close>: the value replaces the old one of the key, the
      size is accounted for, and the key becomes the most recently used\<close>
  "store t c key value =
     (let sz = get_size value;
          diffsize = (case size_of_key c key of Some old \<Rightarrow> sz - old | None \<Rightarrow> sz)
      in c\<lparr>tc_entries := filter (\<lambda>e. en_key e \<noteq> key) (tc_entries c)
                           @ [\<lparr>en_key = key, en_value = value, en_size = sz,
                                en_expires = t + real_of_int (tc_ttl c)\<rparr>],
           tc_currsize := tc_currsize c + diffsize\<rparr>)"

definition ttl_setitem :: "real \<Rightarrow> ttl_cache \<Rightarrow> string \<Rightarrow> string \<Rightarrow> string option \<times> ttl_cache" where
  \<comment> \<open>\<^verbatim>\<open>cache[key] = value\<close> at clock reading \<open>t\<close>\<close>
  "ttl_setitem t c key value =
     (let c1 = expire t c;
          sz = get_size value
      in if sz > tc_maxsize c1 then (Some ''ValueError: value too large'', c1)
         else
           (case (if size_of_key c1 key = None \<or> the (size_of_key c1 key) < sz
                  then evict_loop t sz c1 else (None, c1)) of
              (Some e, c2) \<Rightarrow> (Some e, c2)
            | (None, c2) \<Rightarrow> (None, store t c2 key value)))"

definition ttl_get :: "real \<Rightarrow> ttl_cache \<Rightarrow> string \<Rightarrow> string option \<times> ttl_cache" where
  \<comment> \<open>\<^verbatim>\<open>cache.get(key)\<close> at clock reading \<open>t\<close>: a live entry is returned and
      becomes the most recently used\<close>
  "ttl_get t c key =
     (case find (\<lambda>e. en_key e = key) (tc_entries c) of
        None \<Rightarrow> (None, c)
      | Some e \<Rightarrow>
          if t < en_expires e
          then (Some (en_value e),
                c\<lparr>tc_entries := filter (\<lambda>e'. en_key e' \<noteq> key) (tc_entries c) @ [e]\<rparr>)
          else (None, c))"

text \<open>
  \<^verbatim>\<open>CacheManager\<close> itself. The JSON encoder and decoder are parameters:
  \<open>Inl\<close> is the exception they raise.
\<close>

record 'v codec =
  json_dumps :: "'v \<Rightarrow> string + string"
  json_loads :: "string \<Rightarrow> string + 'v"

definition cache_init :: "int \<Rightarrow> int \<Rightarrow> ttl_cache" where
  \<comment> \<open>\<^verbatim>\<open>CacheManager.__init__\<close> from \<^verbatim>\<open>Config.CACHE_SIZE_MB\<close> and
      \<^verbatim>\<open>Config.CACHE_TTL_DAYS\<close>\<close>
  "cache_init cache_size_mb cache_ttl_days =
     \<lparr>tc_maxsize = cache_size_mb * 1024 * 1024,
      tc_ttl = cache_ttl_days * 24 * 60 * 60,
      tc_entries = [], tc_currsize = 0\<rparr>"

definition cache_get :: "'v codec \<Rightarrow> real \<Rightarrow> ttl_cache \<Rightarrow> string \<Rightarrow> 'v option \<times> ttl_cache" where
  "cache_get cd t c key =
     (case ttl_get t c key of
        (Some value, c') \<Rightarrow>
          (if value \<noteq> [] then
             (case json_loads cd value of
                Inr v \<Rightarrow> (Some v, c')
              | Inl e \<Rightarrow> (None, c'))
           else (None, c'))
      | (None, c') \<Rightarrow> (None, c'))"

definition cache_set :: "'v codec \<Rightarrow> real \<Rightarrow> ttl_cache \<Rightarrow> string \<Rightarrow> 'v \<Rightarrow> bool \<times> ttl_cache" where
  "cache_set cd t c key value =
     (case json_dumps cd value of
        Inl e \<Rightarrow> (False, c)
      | Inr serialized \<Rightarrow>
          (case ttl_setitem t c key serialized of
             (None, c') \<Rightarrow> (True, c')
           | (Some e, c') \<Rightarrow> (False, c')))"

definition cache_ok :: "ttl_cache \<Rightarrow> bool" where
  \<comment> \<open>the tracked size is the sum of the sizes of the entries, each the size of
      its value, and it does not exceed the capacity\<close>
  "cache_ok c =
     (tc_currsize c = sum_list (map en_size (tc_entries c))
      \<and> list_all (\<lambda>e. en_size e = get_size (en_value e)) (tc_entries c)
      \<and> distinct (map en_key (tc_entries c))
      \<and> tc_currsize c \<le> tc_maxsize c)"

section \<open>The context aggregator\<close>

record location =
  loc_file :: string
  loc_line :: int

record symbol =
  sym_name :: string
  sym_kind :: string
  sym_location :: location
  sym_documentation :: string

record dependency =
  dep_module :: string
  dep_summary :: string

record reference =
  ref_file :: string
  ref_line :: int
  ref_context :: string

record payload =
  p_symbols :: "symbol list"
  p_dependencies :: "dependency list"
  p_references :: "reference list"
  p_tokens_saved :: int

text \<open>
  What the aggregator takes from outside the repository: the regular
  expression engine (whether the search for a declaration of a symbol in a
  text succeeds; for each import statement of a text, in order, the module
  that \<^verbatim>\<open>match.group(1) or match.group(2).split()[0]\<close> names, or
  nothing when that expression raises), the tokenizer (the number of tokens
  of a text, or nothing when it refuses the text), Python's rendering of the
  payload dictionary, the JSON codec, and the hash of the UTF-8 encoding of a
  text (nothing when the text cannot be encoded).
\<close>

record agg_env =
  ae_lsp :: lsp_env
  ae_declares :: "string \<Rightarrow> string \<Rightarrow> bool"
  ae_import_modules :: "string \<Rightarrow> string option list"
  ae_token_len :: "string \<Rightarrow> nat option"
  ae_str :: "symbol list \<Rightarrow> dependency list \<Rightarrow> reference list \<Rightarrow> string"
  ae_codec :: "payload codec"
  ae_sha256_hex :: "string \<Rightarrow> string option"

record manager =
  mg_client :: client
  mg_cache :: ttl_cache
  mg_ws :: workspace

definition generate_cache_key :: "agg_env \<Rightarrow> string \<Rightarrow> string \<Rightarrow> int \<Rightarrow> string option" where
  "generate_cache_key env query scope max_tokens =
     ae_sha256_hex env (query @ '':'' @ scope @ '':'' @ str_int max_tokens)"

fun scan_files :: "agg_env \<Rightarrow> filesystem \<Rightarrow> string \<Rightarrow> string \<Rightarrow> string list \<Rightarrow> string option" where
  \<comment> \<open>the inner loop of \<^verbatim>\<open>_find_symbol_file\<close> over the files of one directory\<close>
  "scan_files env fs symbol_name dirpath [] = None"
| "scan_files env fs symbol_name dirpath (file # files) =
     (if endswith file ''.py'' then
        (case read_text fs (path_join dirpath file) of
           Inr content \<Rightarrow>
             (if ae_declares env symbol_name content then Some (path_join dirpath file)
              else scan_files env fs symbol_name dirpath files)
         | Inl e \<Rightarrow> scan_files env fs symbol_name dirpath files)
      else scan_files env fs symbol_name dirpath files)"

fun scan_walk ::
  "agg_env \<Rightarrow> filesystem \<Rightarrow> string \<Rightarrow> (string \<times> string list) list \<Rightarrow> string option" where
  "scan_walk env fs symbol_name [] = None"
| "scan_walk env fs symbol_name ((dirpath, files) # rest) =
     (case scan_files env fs symbol_name dirpath files of
        Some p \<Rightarrow> Some p
      | None \<Rightarrow> scan_walk env fs symbol_name rest)"

definition find_symbol_file :: "agg_env \<Rightarrow> workspace \<Rightarrow> string \<Rightarrow> string option" where
  "find_symbol_file env ws symbol_name =
     scan_walk env (ws_fs ws) symbol_name (walk True (ws_root ws) (ws_tree ws))"

definition kind_map :: "(int \<times> string) list" where
  "kind_map =
     [(1, ''File''), (2, ''Module''), (3, ''Namespace''), (4, ''Package''),
      (5, ''Class''), (6, ''Method''), (7, ''Property''), (8, ''Field''),
      (9, ''Constructor''), (10, ''Enum''), (11, ''Interface''), (12, ''Function''),
      (13, ''Variable''), (14, ''Constant''), (15, ''String''), (16, ''Number''),
      (17, ''Boolean''), (18, ''Array''), (19, ''Object''), (20, ''Key''),
      (21, ''Null''), (22, ''EnumMember''), (23, ''Struct''), (24, ''Event''),
      (25, ''Operator''), (26, ''TypeParameter'')]"

definition get_symbol_kind_name :: "int \<Rightarrow> string" where
  "get_symbol_kind_name kind =
     (case map_of kind_map kind of Some n \<Rightarrow> n | None \<Rightarrow> ''Unknown'')"

definition span_truthy :: "span \<Rightarrow> bool" where
  "span_truthy sp = (sp_start sp \<noteq> None \<or> sp_other_keys sp)"

definition start_line :: "span \<Rightarrow> int" where
  \<comment> \<open>\<^verbatim>\<open>span.get("start", {"line": 0}).get("line", 0)\<close>\<close>
  "start_line sp =
     (case sp_start sp of
        None \<Rightarrow> 0
      | Some None \<Rightarrow> 0
      | Some (Some n) \<Rightarrow> n)"

definition format_symbol :: "lsp_dict \<Rightarrow> string \<Rightarrow> symbol" where
  "format_symbol d file_path =
     (let loc = (case d_location d of
                   Some sp \<Rightarrow> if span_truthy sp then sp
                              else (case d_range d of Some r \<Rightarrow> r
                                    | None \<Rightarrow> \<lparr>sp_start = None, sp_other_keys = False\<rparr>)
                 | None \<Rightarrow> (case d_range d of Some r \<Rightarrow> r
                             | None \<Rightarrow> \<lparr>sp_start = None, sp_other_keys = False\<rparr>))
      in \<lparr>sym_name = (case d_name d of Some n \<Rightarrow> n | None \<Rightarrow> ''Unknown''),
          sym_kind = get_symbol_kind_name (case d_kind d of Some k \<Rightarrow> k | None \<Rightarrow> 0),
          sym_location = \<lparr>loc_file = file_path, loc_line = start_line loc\<rparr>,
          sym_documentation = (case d_detail d of Some t \<Rightarrow> t | None \<Rightarrow> [])\<rparr>)"

definition name_or_empty :: "lsp_dict \<Rightarrow> string" where
  \<comment> \<open>\<^verbatim>\<open>symbol.get("name", "")\<close>\<close>
  "name_or_empty d = (case d_name d of Some n \<Rightarrow> n | None \<Rightarrow> [])"

definition keeps :: "string \<Rightarrow> string \<Rightarrow> lsp_dict \<Rightarrow> bool" where
  \<comment> \<open>the filter of \<^verbatim>\<open>_extract_symbols\<close>: which backend symbols a scope keeps\<close>
  "keeps scope symbol_name d =
     (if scope = ''function'' \<and> contains_str symbol_name (name_or_empty d) then True
      else if scope = ''class''
        then d_kind d = Some 5 \<or> contains_str symbol_name (name_or_empty d)
      else if scope = ''file'' then True
      else False)"

definition stub_symbol :: "string \<Rightarrow> string \<Rightarrow> symbol" where
  "stub_symbol file_path symbol_name =
     \<lparr>sym_name = symbol_name, sym_kind = ''Unknown'',
      sym_location = \<lparr>loc_file = file_path, loc_line = 1\<rparr>,
      sym_documentation = ''Symbol '' @ symbol_name @ '' in '' @ basename file_path\<rparr>"

fun symbols_loop :: "string \<Rightarrow> string \<Rightarrow> string \<Rightarrow> item list \<Rightarrow> string + symbol list" where
  \<comment> \<open>the loop of \<^verbatim>\<open>_extract_symbols\<close> over what the backend returned; under
      the three known scopes each element is asked for its keys, which raises
      on an element that is not a dictionary\<close>
  "symbols_loop file_path symbol_name scope [] = Inr []"
| "symbols_loop file_path symbol_name scope (it # rest) =
     (if scope = ''function'' \<or> scope = ''class'' \<or> scope = ''file'' then
        (case it of
           Key k \<Rightarrow> Inl ''AttributeError''
         | Dict d \<Rightarrow>
             (case symbols_loop file_path symbol_name scope rest of
                Inl e \<Rightarrow> Inl e
              | Inr symbols \<Rightarrow>
                  Inr (if keeps scope symbol_name d
                       then format_symbol d file_path # symbols else symbols)))
      else symbols_loop file_path symbol_name scope rest)"

definition extract_symbols ::
  "agg_env \<Rightarrow> filesystem \<Rightarrow> client \<Rightarrow> string \<Rightarrow> string \<Rightarrow> string
     \<Rightarrow> symbol list outcome \<times> client" where
  "extract_symbols env fs c file_path symbol_name scope =
     (case get_symbols (ae_lsp env) c file_path of
        (Raised e, c1) \<Rightarrow> (Raised e, c1)
      | (Hang, c1) \<Rightarrow> (Hang, c1)
      | (Returned file_symbols, c1) \<Rightarrow>
          (case iterate file_symbols of
             Inl e \<Rightarrow> (Raised e, c1)
           | Inr items \<Rightarrow>
               (case symbols_loop file_path symbol_name scope items of
                  Inl e \<Rightarrow> (Raised e, c1)
                | Inr symbols \<Rightarrow>
                    (if symbols = [] \<and> path_exists fs file_path
                     then (Returned [stub_symbol file_path symbol_name], c1)
                     else (Returned symbols, c1)))))"

fun modules_loop :: "string \<Rightarrow> string list \<Rightarrow> string option list \<Rightarrow> dependency list \<times> string list" where
  \<comment> \<open>the loop over the import statements of one file: the records appended,
      in order, and \<^verbatim>\<open>seen_modules\<close> afterwards; an exception ends the work
      on the file and keeps what was appended\<close>
  "modules_loop file_path seen [] = ([], seen)"
| "modules_loop file_path seen (None # ms) = ([], seen)"
| "modules_loop file_path seen (Some m # ms) =
     (if m \<noteq> [] \<and> m \<notin> set seen then
        (\<lparr>dep_module = m, dep_summary = ''Imported by '' @ basename file_path\<rparr>
           # fst (modules_loop file_path (seen @ [m]) ms),
         snd (modules_loop file_path (seen @ [m]) ms))
      else modules_loop file_path seen ms)"

fun dependencies_loop ::
  "agg_env \<Rightarrow> filesystem \<Rightarrow> string list \<Rightarrow> symbol list \<Rightarrow> dependency list" where
  \<comment> \<open>\<^verbatim>\<open>_extract_dependencies\<close>; \<open>seen\<close> is \<^verbatim>\<open>seen_modules\<close>\<close>
  "dependencies_loop env fs seen [] = []"
| "dependencies_loop env fs seen (s # ss) =
     (let file_path = loc_file (sym_location s)
      in if \<not> path_exists fs file_path then dependencies_loop env fs seen ss
         else
           (case read_text fs file_path of
              Inl e \<Rightarrow> dependencies_loop env fs seen ss
            | Inr content \<Rightarrow>
                (let (deps, seen') = modules_loop file_path seen (ae_import_modules env content)
                 in deps @ dependencies_loop env fs seen' ss)))"

definition extract_dependencies :: "agg_env \<Rightarrow> filesystem \<Rightarrow> symbol list \<Rightarrow> dependency list" where
  "extract_dependencies env fs symbols = dependencies_loop env fs [] symbols"

definition ref_file_of :: "lsp_dict \<Rightarrow> string" where
  \<comment> \<open>\<^verbatim>\<open>ref.get("uri", "").replace("file://", "")\<close>\<close>
  "ref_file_of d = replace_all ''file://'' [] (case d_uri d of Some u \<Rightarrow> u | None \<Rightarrow> [])"

definition ref_line_of :: "lsp_dict \<Rightarrow> int" where
  \<comment> \<open>\<^verbatim>\<open>ref.get("range", {}).get("start", {}).get("line", 0)\<close>\<close>
  "ref_line_of d = (case d_range d of Some sp \<Rightarrow> start_line sp | None \<Rightarrow> 0)"

definition reference_record :: "symbol \<Rightarrow> lsp_dict \<Rightarrow> reference" where
  "reference_record s d =
     \<lparr>ref_file = ref_file_of d, ref_line = ref_line_of d,
      ref_context = ''Reference to '' @ sym_name s\<rparr>"

definition ref_kept :: "symbol \<Rightarrow> lsp_dict \<Rightarrow> bool" where
  \<comment> \<open>\<^verbatim>\<open>if ref_file and ref_file != file_path\<close>\<close>
  "ref_kept s d = (ref_file_of d \<noteq> [] \<and> ref_file_of d \<noteq> loc_file (sym_location s))"

fun references_loop :: "symbol \<Rightarrow> item list \<Rightarrow> string + reference list" where
  \<comment> \<open>the inner loop of \<^verbatim>\<open>_extract_references\<close> for one symbol, over the
      first five raw references its query returned\<close>
  "references_loop s [] = Inr []"
| "references_loop s (Key k # rest) = Inl ''AttributeError''"
| "references_loop s (Dict d # rest) =
     (case references_loop s rest of
        Inl e \<Rightarrow> Inl e
      | Inr refs \<Rightarrow> Inr (if ref_kept s d then reference_record s d # refs else refs))"

fun extract_references ::
  "agg_env \<Rightarrow> client \<Rightarrow> symbol list \<Rightarrow> reference list outcome \<times> client" where
  "extract_references env c [] = (Returned [], c)"
| "extract_references env c (s # ss) =
     (case get_references (ae_lsp env) c (loc_file (sym_location s))
             (loc_line (sym_location s), 0) of
        (Raised e, c1) \<Rightarrow> (Raised e, c1)
      | (Hang, c1) \<Rightarrow> (Hang, c1)
      | (Returned refs, c1) \<Rightarrow>
          (case first_five refs of
             Inl e \<Rightarrow> (Raised e, c1)
           | Inr items \<Rightarrow>
               (case references_loop s items of
                  Inl e \<Rightarrow> (Raised e, c1)
                | Inr found \<Rightarrow>
                    (case extract_references env c1 ss of
                       (Returned rest, c2) \<Rightarrow> (Returned (found @ rest), c2)
                     | (Raised e, c2) \<Rightarrow> (Raised e, c2)
                     | (Hang, c2) \<Rightarrow> (Hang, c2)))))"

definition estimate_raw_tokens :: "agg_env \<Rightarrow> filesystem \<Rightarrow> string \<Rightarrow> string \<Rightarrow> int" where
  "estimate_raw_tokens env fs file_path scope =
     (if \<not> path_exists fs file_path then 0
      else
        (case read_text fs file_path of
           Inl e \<Rightarrow> 1000
         | Inr content \<Rightarrow>
             (if scope = ''function'' then 500
              else if scope = ''class'' then 2000
              else (case ae_token_len env content of
                      Some n \<Rightarrow> int n
                    | None \<Rightarrow> 1000))))"

definition count_tokens ::
  "agg_env \<Rightarrow> symbol list \<Rightarrow> dependency list \<Rightarrow> reference list \<Rightarrow> int option" where
  \<comment> \<open>nothing when the tokenizer raises\<close>
  "count_tokens env symbols dependencies references =
     map_option int (ae_token_len env (ae_str env symbols dependencies references))"

definition empty_result :: payload where
  "empty_result =
     \<lparr>p_symbols = [], p_dependencies = [], p_references = [], p_tokens_saved = 0\<rparr>"

definition resolve_file :: "agg_env \<Rightarrow> workspace \<Rightarrow> string \<Rightarrow> string option \<times> string" where
  \<comment> \<open>the opening of \<^verbatim>\<open>get_context\<close>: the query is parsed, a file that the
      query does not give is searched for by symbol, and an empty path counts
      as no file\<close>
  "resolve_file env ws query =
     (let (file_path0, symbol_name) = parse_query ws query;
          file_path1 = (case file_path0 of
                          Some p \<Rightarrow> if p \<noteq> [] then Some p
                                    else find_symbol_file env ws symbol_name
                        | None \<Rightarrow> find_symbol_file env ws symbol_name)
      in (case file_path1 of
            Some p \<Rightarrow> if p \<noteq> [] then Some p else None
          | None \<Rightarrow> None,
          symbol_name))"

definition get_context ::
  "agg_env \<Rightarrow> real \<Rightarrow> real \<Rightarrow> manager \<Rightarrow> string \<Rightarrow> string \<Rightarrow> int
     \<Rightarrow> payload outcome \<times> manager" where
  \<comment> \<open>\<open>t_get\<close> and \<open>t_set\<close> are the clock readings at the cache lookup and at the
      cache store\<close>
  "get_context env t_get t_set m query scope max_tokens =
     (case generate_cache_key env query scope max_tokens of
        None \<Rightarrow> (Raised ''UnicodeEncodeError'', m)
      | Some cache_key \<Rightarrow>
          (let (cached_result, cache1) = cache_get (ae_codec env) t_get (mg_cache m) cache_key;
               m1 = m\<lparr>mg_cache := cache1\<rparr>
           in case cached_result of
                Some cached \<Rightarrow> (Returned cached, m1)
              | None \<Rightarrow>
                  (case resolve_file env (mg_ws m) query of
                     (None, symbol_name) \<Rightarrow> (Returned empty_result, m1)
                   | (Some file_path, symbol_name) \<Rightarrow>
                       (case extract_symbols env (ws_fs (mg_ws m)) (mg_client m1)
                               file_path symbol_name scope of
                          (Raised e, c1) \<Rightarrow> (Raised e, m1\<lparr>mg_client := c1\<rparr>)
                        | (Hang, c1) \<Rightarrow> (Hang, m1\<lparr>mg_client := c1\<rparr>)
                        | (Returned symbols, c1) \<Rightarrow>
                            (let dependencies =
                                   extract_dependencies env (ws_fs (mg_ws m)) symbols
                             in case extract_references env c1 symbols of
                                  (Raised e, c2) \<Rightarrow> (Raised e, m1\<lparr>mg_client := c2\<rparr>)
                                | (Hang, c2) \<Rightarrow> (Hang, m1\<lparr>mg_client := c2\<rparr>)
                                | (Returned references, c2) \<Rightarrow>
                                    (let raw_tokens =
                                           estimate_raw_tokens env (ws_fs (mg_ws m))
                                             file_path scope
                                     in case count_tokens env symbols dependencies references of
                                          None \<Rightarrow> (Raised ''ValueError'', m1\<lparr>mg_client := c2\<rparr>)
                                        | Some optimized_tokens \<Rightarrow>
                                            (let tokens_saved =
                                                   max 0 (raw_tokens - optimized_tokens);
                                                 result = \<lparr>p_symbols = symbols,
                                                           p_dependencies = dependencies,
                                                           p_references = references,
                                                           p_tokens_saved = tokens_saved\<rparr>;
                                                 (stored, cache2) =
                                                   cache_set (ae_codec env) t_set (mg_cache m1)
                                                     cache_key result
                                             in (Returned result,
                                                 m1\<lparr>mg_client := c2,
                                                    mg_cache := cache2\<rparr>))))))))"

text \<open>
  Two properties the statements about cached payloads rest on: the codec gives
  back what it encoded, and every cached text decodes to a payload whose
  \<^verbatim>\<open>tokens_saved\<close> is not negative.
\<close>

definition round_trips :: "payload codec \<Rightarrow> bool" where
  "round_trips cd = (\<forall>p s. json_dumps cd p = Inr s \<longrightarrow> json_loads cd s = Inr p)"

definition cached_nonneg :: "payload codec \<Rightarrow> ttl_cache \<Rightarrow> bool" where
  "cached_nonneg cd c =
     (\<forall>e \<in> set (tc_entries c). \<forall>p. json_loads cd (en_value e) = Inr p \<longrightarrow> 0 \<le> p_tokens_saved p)"

record found_location =
  fl_file :: string
  fl_line :: int
  fl_kind :: string
  fl_name :: string
  fl_documentation :: string

record find_result =
  fr_symbol_name :: string
  fr_found :: bool
  fr_message :: string
  fr_locations :: "found_location list"

definition find_symbol ::
  "agg_env \<Rightarrow> manager \<Rightarrow> string \<Rightarrow> find_result outcome \<times> manager" where
  "find_symbol env m symbol_name =
     (case find_symbol_file env (mg_ws m) symbol_name of
        None \<Rightarrow>
          (Returned \<lparr>fr_symbol_name = symbol_name, fr_found = False,
                     fr_message = ''Symbol '' @ [CHR 0x27] @ symbol_name @ [CHR 0x27]
                                  @ '' not found in codebase'',
                     fr_locations = []\<rparr>, m)
      | Some file_path \<Rightarrow>
          (if file_path = [] then
             (Returned \<lparr>fr_symbol_name = symbol_name, fr_found = False,
                        fr_message = ''Symbol '' @ [CHR 0x27] @ symbol_name @ [CHR 0x27]
                                     @ '' not found in codebase'',
                        fr_locations = []\<rparr>, m)
           else
             (case extract_symbols env (ws_fs (mg_ws m)) (mg_client m)
                     file_path symbol_name ''function'' of
                (Raised e, c1) \<Rightarrow> (Raised e, m\<lparr>mg_client := c1\<rparr>)
              | (Hang, c1) \<Rightarrow> (Hang, m\<lparr>mg_client := c1\<rparr>)
              | (Returned symbols, c1) \<Rightarrow>
                  (let locations =
                         map (\<lambda>s. \<lparr>fl_file = loc_file (sym_location s),
                                    fl_line = loc_line (sym_location s),
                                    fl_kind = sym_kind s, fl_name = sym_name s,
                                    fl_documentation = sym_documentation s\<rparr>) symbols
                   in (Returned \<lparr>fr_symbol_name = symbol_name, fr_found = True,
                                 fr_message = ''Found '' @ str_int (int (length locations))
                                              @ '' occurrence(s) of '' @ [CHR 0x27]
                                              @ symbol_name @ [CHR 0x27],
                                 fr_locations = locations\<rparr>,
                       m\<lparr>mg_client := c1\<rparr>)))))"

section \<open>Query parsing: the three forms\<close>

lemma split_on_none: "sep \<notin> set s \<Longrightarrow> split_on sep s = [s]"
  by (induction s) auto

lemma split_on_one:
  "sep \<notin> set a \<Longrightarrow> sep \<notin> set b \<Longrightarrow> split_on sep (a @ sep # b) = [a, b]"
  by (induction a) (auto simp: split_on_none)

lemma split_first_at:
  "sep \<notin> set a \<Longrightarrow> split_first sep (a @ sep # b) = (a, b)"
  by (induction a) (auto simp: split_first_def)

text \<open>
  Claim C6. A query \<open>Class.method\<close> with no colon and exactly one dot parses to
  an unresolved file and the method name; a query \<open>file:symbol\<close> whose file part
  (the text before the first colon) exists parses to that file and the symbol;
  a bare token with neither colon nor dot parses to an unresolved file and
  itself. The three examples of the specification are instances.
\<close>

theorem parse_query_forms:
  "(CHR '':'' \<notin> set (c @ m) \<and> CHR ''.'' \<notin> set (c @ m)
      \<longrightarrow> parse_query ws (c @ ''.'' @ m) = (None, m))
   \<and> (CHR '':'' \<notin> set f \<and> path_exists (ws_fs ws) f
      \<longrightarrow> parse_query ws (f @ '':'' @ s) = (Some f, s))
   \<and> (CHR '':'' \<notin> set q \<and> CHR ''.'' \<notin> set q \<longrightarrow> parse_query ws q = (None, q))
   \<and> parse_query ws ''UserService.authenticate'' = (None, ''authenticate'')
   \<and> (path_exists (ws_fs ws) ''/abs/path/user.py''
      \<longrightarrow> parse_query ws ''/abs/path/user.py:UserService''
          = (Some ''/abs/path/user.py'', ''UserService''))
   \<and> parse_query ws ''foo'' = (None, ''foo'')"
proof -
  have dot: "parse_query ws (c @ ''.'' @ m) = (None, m)"
    if "CHR '':'' \<notin> set (c @ m)" "CHR ''.'' \<notin> set (c @ m)" for c m
    using that by (simp add: parse_query_def split_on_one)
  have colon: "parse_query ws (f @ '':'' @ s) = (Some f, s)"
    if "CHR '':'' \<notin> set f" "path_exists (ws_fs ws) f" for f s
    using that by (simp add: parse_query_def split_first_at)
  have bare: "parse_query ws q = (None, q)"
    if "CHR '':'' \<notin> set q" "CHR ''.'' \<notin> set q" for q
    using that by (simp add: parse_query_def)
  have e1: "parse_query ws ''UserService.authenticate'' = (None, ''authenticate'')"
    using dot [of "''UserService''" "''authenticate''"] by simp
  have e2: "parse_query ws ''/abs/path/user.py:UserService''
              = (Some ''/abs/path/user.py'', ''UserService'')"
    if "path_exists (ws_fs ws) ''/abs/path/user.py''"
    using colon [of "''/abs/path/user.py''" "''UserService''"] that by simp
  have e3: "parse_query ws ''foo'' = (None, ''foo'')"
    using bare [of "''foo''"] by simp
  show ?thesis using dot colon bare e1 e2 e3 by blast
qed

theorem parse_query_forms_witness:
  "path_exists [''/abs/path/user.py'' \<mapsto> File ''class UserService: pass''] ''/abs/path/user.py''
   \<and> parse_query \<lparr>ws_fs = [''/abs/path/user.py'' \<mapsto> File ''class UserService: pass''],
                   ws_root = ''/abs'', ws_tree = Dir [] []\<rparr>
        ''/abs/path/user.py:UserService'' = (Some ''/abs/path/user.py'', ''UserService'')
   \<and> parse_query \<lparr>ws_fs = [''/abs/path/user.py'' \<mapsto> File ''class UserService: pass''],
                   ws_root = ''/abs'', ws_tree = Dir [] []\<rparr>
        ''a.b'' = (None, ''b'')
   \<and> parse_query \<lparr>ws_fs = [''/abs/path/user.py'' \<mapsto> File ''class UserService: pass''],
                   ws_root = ''/abs'', ws_tree = Dir [] []\<rparr>
        ''foo'' = (None, ''foo'')"
  using parse_query_forms [of "''a''" "''b''"
      "\<lparr>ws_fs = [''/abs/path/user.py'' \<mapsto> File ''class UserService: pass''],
         ws_root = ''/abs'', ws_tree = Dir [] []\<rparr>"
      "''/abs/path/user.py''" "''UserService''" "''foo''"]
  by (simp add: path_exists_def)

section \<open>Line edits: order, skipping and the counter\<close>















section \<open>Requests and replies on one session\<close>

lemma read_until_first_match:
  "list_all (passed_over i) pre \<Longrightarrow> m_id msg = Some i \<Longrightarrow> m_error msg = None \<Longrightarrow>
   read_until i (pre @ Frame msg # rest) = (Returned (result_of msg), rest)"
proof (induction pre)
  case Nil
  then show ?case by (simp add: result_of_def)
next
  case (Cons f pre)
  then show ?case by (cases f) (auto simp: passed_over_def)
qed

lemma read_until_returned:
  "read_until i frames = (Returned r, rest) \<Longrightarrow>
   \<exists>pre msg. frames = pre @ Frame msg # rest \<and> list_all (passed_over i) pre
     \<and> m_id msg = Some i \<and> m_error msg = None \<and> r = result_of msg"
proof (induction i frames rule: read_until.induct)
  case (1 msg_id)
  then show ?case by simp
next
  case (2 msg_id rest')
  then obtain pre msg where
    "rest' = pre @ Frame msg # rest" "list_all (passed_over msg_id) pre"
    "m_id msg = Some msg_id" "m_error msg = None" "r = result_of msg"
    by auto
  then have "NoFrame # rest' = (NoFrame # pre) @ Frame msg # rest
      \<and> list_all (passed_over msg_id) (NoFrame # pre)
      \<and> m_id msg = Some msg_id \<and> m_error msg = None \<and> r = result_of msg"
    by (simp add: passed_over_def)
  then show ?case by blast
next
  case (3 msg_id e rest')
  then show ?case by simp
next
  case (4 msg_id msg rest')
  show ?case
  proof (cases "m_id msg = Some msg_id")
    case True
    with "4.prems" have "m_error msg = None \<and> r = result_of msg \<and> rest' = rest"
      by (auto simp: result_of_def split: option.splits)
    with True have "Frame msg # rest' = [] @ Frame msg # rest
        \<and> list_all (passed_over msg_id) []
        \<and> m_id msg = Some msg_id \<and> m_error msg = None \<and> r = result_of msg"
      by simp
    then show ?thesis by blast
  next
    case False
    with "4.prems" have "read_until msg_id rest' = (Returned r, rest)" by simp
    with "4.IH" False obtain pre msg' where
      "rest' = pre @ Frame msg' # rest" "list_all (passed_over msg_id) pre"
      "m_id msg' = Some msg_id" "m_error msg' = None" "r = result_of msg'"
      by auto
    with False have "Frame msg # rest' = (Frame msg # pre) @ Frame msg' # rest
        \<and> list_all (passed_over msg_id) (Frame msg # pre)
        \<and> m_id msg' = Some msg_id \<and> m_error msg' = None \<and> r = result_of msg'"
      by (simp add: passed_over_def)
    then show ?thesis by blast
  qed
qed

lemma request_first_match:
  assumes "s_running s"
      and "list_all (passed_over (s_request_id s + 1)) pre"
      and "m_id msg = Some (s_request_id s + 1)" and "m_error msg = None"
      and "s_inbound s = pre @ Frame msg # rest"
  shows "request s method ps =
           (Returned (result_of msg),
            s\<lparr>s_request_id := s_request_id s + 1,
              s_outbound := s_outbound s @ [\<lparr>om_id = Some (s_request_id s + 1),
                                             om_method = method, om_params = ps\<rparr>],
              s_inbound := rest\<rparr>)"
  using assms(1) assms(5) read_until_first_match [OF assms(2) assms(3) assms(4), of rest]
  by (simp add: request_def Let_def)

text \<open>
  Claim C5. A request on a running session takes the id one above the
  counter, and the caller waits in the read loop until its call returns; the
  next request is written only then. Whatever the backend delivers before the
  reply with the caller's id (empty reads, notifications, messages and replies
  with any other id, in any order) is passed over, and the caller receives the
  result of the reply with its own id: the request returns a value exactly
  when the frames not yet consumed contain a reply with that id and no error,
  preceded only by frames that are passed over, and the value is the result of
  that reply. Two requests made one after the other, each answered after it
  was made, each receive the result of the reply with their own id.
\<close>

theorem request_returns_first_matching_reply:
  assumes "s_running s"
  shows "(list_all (passed_over (s_request_id s + 1)) pre \<and> m_id msg = Some (s_request_id s + 1)
            \<and> m_error msg = None \<and> s_inbound s = pre @ Frame msg # rest
          \<longrightarrow> fst (request s method ps) = Returned (result_of msg)
              \<and> s_inbound (snd (request s method ps)) = rest
              \<and> s_request_id (snd (request s method ps)) = s_request_id s + 1)
       \<and> (fst (request s method ps) = Returned r
          \<longrightarrow> (\<exists>pre' msg'. s_inbound s = pre' @ Frame msg' # s_inbound (snd (request s method ps))
                 \<and> list_all (passed_over (s_request_id s + 1)) pre'
                 \<and> m_id msg' = Some (s_request_id s + 1) \<and> m_error msg' = None
                 \<and> r = result_of msg'))
       \<and> (list_all (passed_over (s_request_id s + 1)) pre1
            \<and> m_id msg1 = Some (s_request_id s + 1) \<and> m_error msg1 = None
            \<and> list_all (passed_over (s_request_id s + 2)) pre2
            \<and> m_id msg2 = Some (s_request_id s + 2) \<and> m_error msg2 = None
            \<and> s_inbound s = pre1 @ Frame msg1 # pre2 @ Frame msg2 # rest2
          \<longrightarrow> fst (request s method ps) = Returned (result_of msg1)
              \<and> fst (request (snd (request s method ps)) method2 ps2) = Returned (result_of msg2)
              \<and> s_inbound (snd (request (snd (request s method ps)) method2 ps2)) = rest2)"
proof -
  obtain res rest' where ru: "read_until (s_request_id s + 1) (s_inbound s) = (res, rest')"
    by (cases "read_until (s_request_id s + 1) (s_inbound s)")
  have fst_req: "fst (request s method ps) = res"
    using assms ru by (simp add: request_def Let_def)
  have inb: "s_inbound (snd (request s method ps)) = rest'"
    using assms ru by (simp add: request_def Let_def)
  have forward: "fst (request s method ps) = Returned (result_of msg)
      \<and> s_inbound (snd (request s method ps)) = rest
      \<and> s_request_id (snd (request s method ps)) = s_request_id s + 1"
    if "list_all (passed_over (s_request_id s + 1)) pre" "m_id msg = Some (s_request_id s + 1)"
       "m_error msg = None" "s_inbound s = pre @ Frame msg # rest"
    using request_first_match [OF assms that, of "method" "ps"] by simp
  have backward: "\<exists>pre' msg'. s_inbound s = pre' @ Frame msg' # s_inbound (snd (request s method ps))
                 \<and> list_all (passed_over (s_request_id s + 1)) pre'
                 \<and> m_id msg' = Some (s_request_id s + 1) \<and> m_error msg' = None
                 \<and> r = result_of msg'"
    if "fst (request s method ps) = Returned r"
  proof -
    from that fst_req ru
    have "read_until (s_request_id s + 1) (s_inbound s) = (Returned r, rest')" by simp
    from read_until_returned [OF this] inb show ?thesis by simp
  qed
  have two: "fst (request s method ps) = Returned (result_of msg1)
      \<and> fst (request (snd (request s method ps)) method2 ps2) = Returned (result_of msg2)
      \<and> s_inbound (snd (request (snd (request s method ps)) method2 ps2)) = rest2"
    if a: "list_all (passed_over (s_request_id s + 1)) pre1"
          "m_id msg1 = Some (s_request_id s + 1)" "m_error msg1 = None"
       and b: "list_all (passed_over (s_request_id s + 2)) pre2"
          "m_id msg2 = Some (s_request_id s + 2)" "m_error msg2 = None"
       and inbound: "s_inbound s = pre1 @ Frame msg1 # pre2 @ Frame msg2 # rest2"
  proof -
    let ?s1 = "snd (request s method ps)"
    have first: "request s method ps =
           (Returned (result_of msg1),
            s\<lparr>s_request_id := s_request_id s + 1,
              s_outbound := s_outbound s @ [\<lparr>om_id = Some (s_request_id s + 1),
                                             om_method = method, om_params = ps\<rparr>],
              s_inbound := pre2 @ Frame msg2 # rest2\<rparr>)"
      using request_first_match [OF assms a inbound, of "method" "ps"] .
    have run1: "s_running ?s1" using first assms by simp
    have id1: "s_request_id ?s1 + 1 = s_request_id s + 2" using first by simp
    have in1: "s_inbound ?s1 = pre2 @ Frame msg2 # rest2" using first by simp
    have second: "request ?s1 method2 ps2 =
           (Returned (result_of msg2),
            ?s1\<lparr>s_request_id := s_request_id ?s1 + 1,
              s_outbound := s_outbound ?s1 @ [\<lparr>om_id = Some (s_request_id ?s1 + 1),
                                             om_method = method2, om_params = ps2\<rparr>],
              s_inbound := rest2\<rparr>)"
      using request_first_match [OF run1 _ _ b(3) in1, of "method2" "ps2"] b(1) b(2) id1 by simp
    from first second show ?thesis by simp
  qed
  show ?thesis using forward backward two by blast
qed

theorem request_returns_first_matching_reply_witness:
  "s_running \<lparr>s_language = ''python'', s_command = [''pylsp''], s_running = True, s_request_id = 4,
        s_inbound = [NoFrame, Frame \<lparr>m_id = Some 9, m_error = None, m_result = Some (Obj [''k''])\<rparr>,
                     Frame \<lparr>m_id = Some 5, m_error = None, m_result = Some (Items [])\<rparr>,
                     Frame \<lparr>m_id = None, m_error = None, m_result = None\<rparr>,
                     Frame \<lparr>m_id = Some 5, m_error = None, m_result = Some (Str ''late'')\<rparr>,
                     Frame \<lparr>m_id = Some 6, m_error = None, m_result = Some (Num True)\<rparr>, NoFrame],
        s_outbound = []\<rparr>
   \<and> list_all (passed_over 5)
        [NoFrame, Frame \<lparr>m_id = Some 9, m_error = None, m_result = Some (Obj [''k''])\<rparr>]
   \<and> list_all (passed_over 6)
        [Frame \<lparr>m_id = None, m_error = None, m_result = None\<rparr>,
         Frame \<lparr>m_id = Some 5, m_error = None, m_result = Some (Str ''late'')\<rparr>]
   \<and> fst (request \<lparr>s_language = ''python'', s_command = [''pylsp''], s_running = True, s_request_id = 4,
        s_inbound = [NoFrame, Frame \<lparr>m_id = Some 9, m_error = None, m_result = Some (Obj [''k''])\<rparr>,
                     Frame \<lparr>m_id = Some 5, m_error = None, m_result = Some (Items [])\<rparr>,
                     Frame \<lparr>m_id = None, m_error = None, m_result = None\<rparr>,
                     Frame \<lparr>m_id = Some 5, m_error = None, m_result = Some (Str ''late'')\<rparr>,
                     Frame \<lparr>m_id = Some 6, m_error = None, m_result = Some (Num True)\<rparr>, NoFrame],
        s_outbound = []\<rparr> ''shutdown'' NoParams) = Returned (Items [])
   \<and> fst (request (snd (request
        \<lparr>s_language = ''python'', s_command = [''pylsp''], s_running = True, s_request_id = 4,
        s_inbound = [NoFrame, Frame \<lparr>m_id = Some 9, m_error = None, m_result = Some (Obj [''k''])\<rparr>,
                     Frame \<lparr>m_id = Some 5, m_error = None, m_result = Some (Items [])\<rparr>,
                     Frame \<lparr>m_id = None, m_error = None, m_result = None\<rparr>,
                     Frame \<lparr>m_id = Some 5, m_error = None, m_result = Some (Str ''late'')\<rparr>,
                     Frame \<lparr>m_id = Some 6, m_error = None, m_result = Some (Num True)\<rparr>, NoFrame],
        s_outbound = []\<rparr> ''shutdown'' NoParams)) ''exit'' NoParams) = Returned (Num True)"
  using request_returns_first_matching_reply
    [of "\<lparr>s_language = ''python'', s_command = [''pylsp''], s_running = True, s_request_id = 4,
        s_inbound = [NoFrame, Frame \<lparr>m_id = Some 9, m_error = None, m_result = Some (Obj [''k''])\<rparr>,
                     Frame \<lparr>m_id = Some 5, m_error = None, m_result = Some (Items [])\<rparr>,
                     Frame \<lparr>m_id = None, m_error = None, m_result = None\<rparr>,
                     Frame \<lparr>m_id = Some 5, m_error = None, m_result = Some (Str ''late'')\<rparr>,
                     Frame \<lparr>m_id = Some 6, m_error = None, m_result = Some (Num True)\<rparr>, NoFrame],
        s_outbound = []\<rparr>"
        "[NoFrame, Frame \<lparr>m_id = Some 9, m_error = None, m_result = Some (Obj [''k''])\<rparr>]"
        "\<lparr>m_id = Some 5, m_error = None, m_result = Some (Items [])\<rparr>"
        "[Frame \<lparr>m_id = None, m_error = None, m_result = None\<rparr>,
          Frame \<lparr>m_id = Some 5, m_error = None, m_result = Some (Str ''late'')\<rparr>,
          Frame \<lparr>m_id = Some 6, m_error = None, m_result = Some (Num True)\<rparr>, NoFrame]"
        "''shutdown''" NoParams "Items []"
        "[NoFrame, Frame \<lparr>m_id = Some 9, m_error = None, m_result = Some (Obj [''k''])\<rparr>]"
        "\<lparr>m_id = Some 5, m_error = None, m_result = Some (Items [])\<rparr>"
        "[Frame \<lparr>m_id = None, m_error = None, m_result = None\<rparr>,
          Frame \<lparr>m_id = Some 5, m_error = None, m_result = Some (Str ''late'')\<rparr>]"
        "\<lparr>m_id = Some 6, m_error = None, m_result = Some (Num True)\<rparr>" "[NoFrame]"
        "''exit''" NoParams]
  by (simp add: passed_over_def result_of_def)

section \<open>The registry on files with no mapped extension\<close>

lemma unmapped_language:
  "lower (path_suffix p) \<notin> mapped_extensions \<Longrightarrow> get_language_from_file p = ''unknown''"
  by (simp add: get_language_from_file_def language_map_def mapped_extensions_def)

lemma start_server_unknown: "start_server env c ''unknown'' = (Returned (), c)"
  by (simp add: start_server_def LANGUAGE_SERVERS_def)

lemma start_server_keeps_unknown_out:
  "c_servers c ''unknown'' = None \<Longrightarrow> c_servers (snd (start_server env c l)) ''unknown'' = None"
proof (cases "l = ''unknown''")
  case True
  assume "c_servers c ''unknown'' = None"
  with True show ?thesis by (simp add: start_server_def LANGUAGE_SERVERS_def)
next
  case False
  assume a: "c_servers c ''unknown'' = None"
  show ?thesis
  proof (cases "map_of LANGUAGE_SERVERS l")
    case None
    with a show ?thesis by (simp add: start_server_def)
  next
    case (Some command)
    obtain r s where st: "session_start (le_spawn env) l command = (r, s)"
      by (cases "session_start (le_spawn env) l command")
    from a False Some st show ?thesis
      by (cases r) (simp_all add: start_server_def)
  qed
qed

text \<open>
  Claim C7. For a file whose extension, lower-cased as the registry does, is
  none of the eight mapped ones, the language is \<open>unknown\<close>, and on a registry
  that holds no session under that name (none is ever stored there, by
  \<open>start_server_keeps_unknown_out\<close>) the three operations return the empty
  result, \<open>None\<close> or the empty list, without raising, and leave the registry as
  it was: no session is started.
\<close>

theorem unmapped_extension_empty_results:
  assumes "lower (path_suffix p) \<notin> mapped_extensions"
      and "c_servers c ''unknown'' = None"
  shows "get_language_from_file p = ''unknown''
       \<and> start_server env c (get_language_from_file p) = (Returned (), c)
       \<and> get_definition env c p pos = (Returned None, c)
       \<and> get_references env c p pos = (Returned (Items []), c)
       \<and> get_symbols env c p = (Returned (Items []), c)"
proof -
  have lang: "get_language_from_file p = ''unknown''"
    using assms(1) by (rule unmapped_language)
  have d: "get_definition env c p pos = (Returned None, c)"
    using assms(2) by (simp add: get_definition_def lang start_server_unknown)
  have r: "get_references env c p pos = (Returned (Items []), c)"
    using assms(2) by (simp add: get_references_def lang start_server_unknown)
  have s: "get_symbols env c p = (Returned (Items []), c)"
    using assms(2) by (simp add: get_symbols_def lang start_server_unknown)
  show ?thesis using lang d r s by (simp add: start_server_unknown)
qed

theorem unmapped_extension_empty_results_witness:
  "lower (path_suffix ''/docs/README.MD'') \<notin> mapped_extensions
   \<and> c_servers \<lparr>c_servers = Map.empty, c_initialized = False\<rparr> ''unknown'' = None
   \<and> get_symbols \<lparr>le_spawn = (\<lambda>cmd. Inl ''FileNotFoundError''), le_abspath = (\<lambda>p. p)\<rparr>
        \<lparr>c_servers = Map.empty, c_initialized = False\<rparr> ''/docs/README.MD''
      = (Returned (Items []), \<lparr>c_servers = Map.empty, c_initialized = False\<rparr>)
   \<and> get_definition \<lparr>le_spawn = (\<lambda>cmd. Inl ''FileNotFoundError''), le_abspath = (\<lambda>p. p)\<rparr>
        \<lparr>c_servers = Map.empty, c_initialized = False\<rparr> ''/docs/README.MD'' (3, 0)
      = (Returned None, \<lparr>c_servers = Map.empty, c_initialized = False\<rparr>)"
proof -
  have ext: "lower (path_suffix ''/docs/README.MD'') \<notin> mapped_extensions"
    by code_simp
  have reg: "c_servers \<lparr>c_servers = Map.empty, c_initialized = False\<rparr> ''unknown'' = None"
    by simp
  show ?thesis
    using ext reg unmapped_extension_empty_results [OF ext reg,
      of "\<lparr>le_spawn = (\<lambda>cmd. Inl ''FileNotFoundError''), le_abspath = (\<lambda>p. p)\<rparr>" "(3, 0)"]
    by simp
qed

section \<open>The result cache: capacity and round trip\<close>

lemma sum_list_filter_split:
  "sum_list (map f xs) = sum_list (map f (filter P xs)) + sum_list (map f (filter (\<lambda>x. \<not> P x) xs))"
  for f :: "'a \<Rightarrow> int"
  by (induction xs) auto

lemma sizes_nonneg:
  "list_all (\<lambda>e. en_size e = get_size (en_value e)) es \<Longrightarrow> 0 \<le> sum_list (map en_size es)"
  by (induction es) (auto simp: get_size_def)

lemma expire_ok: "cache_ok c \<Longrightarrow> cache_ok (expire t c)"
proof -
  assume ok: "cache_ok c"
  let ?live = "filter (\<lambda>e. t < en_expires e) (tc_entries c)"
  let ?dead = "filter (\<lambda>e. \<not> t < en_expires e) (tc_entries c)"
  have split: "sum_list (map en_size (tc_entries c))
      = sum_list (map en_size ?live) + sum_list (map en_size ?dead)"
    by (rule sum_list_filter_split)
  have all_dead: "list_all (\<lambda>e. en_size e = get_size (en_value e)) ?dead"
    using ok by (simp add: cache_ok_def list_all_iff)
  have dead: "0 \<le> sum_list (map en_size ?dead)"
    using all_dead by (rule sizes_nonneg)
  have all_live: "list_all (\<lambda>e. en_size e = get_size (en_value e)) ?live"
    using ok by (simp add: cache_ok_def list_all_iff)
  have dist: "distinct (map en_key ?live)"
    using ok by (simp add: cache_ok_def distinct_map_filter)
  show ?thesis
    using ok split dead all_live dist by (simp add: cache_ok_def expire_def)
qed

lemma expire_fields [simp]:
  "tc_maxsize (expire t c) = tc_maxsize c" "tc_ttl (expire t c) = tc_ttl c"
  by (simp_all add: expire_def)

lemma popitem_ok: "cache_ok c \<Longrightarrow> cache_ok (snd (popitem t c))"
proof -
  assume "cache_ok c"
  then have ok: "cache_ok (expire t c)" by (rule expire_ok)
  show ?thesis
  proof (cases "tc_entries (expire t c)")
    case Nil
    with ok show ?thesis by (simp add: popitem_def Let_def)
  next
    case (Cons e es)
    with ok have "0 \<le> en_size e" by (simp add: cache_ok_def get_size_def)
    with ok Cons show ?thesis by (simp add: popitem_def Let_def cache_ok_def)
  qed
qed

lemma popitem_fields [simp]:
  "tc_maxsize (snd (popitem t c)) = tc_maxsize c" "tc_ttl (snd (popitem t c)) = tc_ttl c"
  by (simp_all add: popitem_def Let_def split: list.splits)

lemma expire_fresh: "list_all (\<lambda>e. t < en_expires e) (tc_entries (expire t c))"
  by (simp add: expire_def list_all_iff)

lemma expire_id: "list_all (\<lambda>e. t < en_expires e) (tc_entries c) \<Longrightarrow> expire t c = c"
proof -
  assume a: "list_all (\<lambda>e. t < en_expires e) (tc_entries c)"
  then have live: "filter (\<lambda>e. t < en_expires e) (tc_entries c) = tc_entries c"
    by (simp add: list_all_iff)
  from a have dead: "filter (\<lambda>e. \<not> t < en_expires e) (tc_entries c) = []"
    by (simp add: list_all_iff)
  show ?thesis by (simp add: expire_def live dead)
qed

lemma evict_loop_ok:
  "cache_ok c \<Longrightarrow> list_all (\<lambda>e. t < en_expires e) (tc_entries c) \<Longrightarrow> sz \<le> tc_maxsize c \<Longrightarrow>
   fst (evict_loop t sz c) = None \<and> cache_ok (snd (evict_loop t sz c))
   \<and> list_all (\<lambda>e. t < en_expires e) (tc_entries (snd (evict_loop t sz c)))
   \<and> tc_currsize (snd (evict_loop t sz c)) + sz \<le> tc_maxsize c
   \<and> tc_maxsize (snd (evict_loop t sz c)) = tc_maxsize c
   \<and> tc_ttl (snd (evict_loop t sz c)) = tc_ttl c"
proof (induction t sz c rule: evict_loop.induct)
  case (1 t sz c)
  show ?case
  proof (cases "tc_currsize c + sz > tc_maxsize c")
    case False
    with "1.prems" show ?thesis by (simp add: evict_loop.simps [of t sz c])
  next
    case True
    have same: "expire t c = c" using "1.prems"(2) by (rule expire_id)
    from True "1.prems"(3) have pos: "0 < tc_currsize c" by simp
    with "1.prems"(1) have "tc_entries c \<noteq> []" by (auto simp: cache_ok_def)
    then obtain e es where es: "tc_entries c = e # es" by (cases "tc_entries c") auto
    let ?c' = "c\<lparr>tc_entries := es, tc_currsize := tc_currsize c - en_size e\<rparr>"
    have p: "popitem t c = (None, ?c')"
      by (simp add: popitem_def same es)
    have ok': "cache_ok ?c'" using popitem_ok [OF "1.prems"(1), of t] p by simp
    have fresh': "list_all (\<lambda>e. t < en_expires e) (tc_entries ?c')"
      using "1.prems"(2) es by simp
    have mx: "sz \<le> tc_maxsize ?c'" using "1.prems"(3) by simp
    from "1.IH" [OF True p [symmetric] refl ok' fresh' mx] True p
    show ?thesis by (simp add: evict_loop.simps [of t sz c])
  qed
qed


lemma sum_without_key:
  "distinct (map en_key es) \<Longrightarrow>
   sum_list (map en_size (filter (\<lambda>e. en_key e \<noteq> key) es))
     = sum_list (map en_size es)
       - (case find (\<lambda>e. en_key e = key) es of Some e \<Rightarrow> en_size e | None \<Rightarrow> 0)"
proof (induction es)
  case Nil
  show ?case by simp
next
  case (Cons a es)
  show ?case
  proof (cases "en_key a = key")
    case True
    with Cons.prems have "key \<notin> en_key ` set es" by auto
    then have "filter (\<lambda>e. en_key e \<noteq> key) es = es"
      by (auto simp: filter_id_conv)
    with True show ?thesis by simp
  next
    case False
    with Cons show ?thesis by simp
  qed
qed

lemma store_ok:
  assumes ok: "cache_ok c"
      and fit: "tc_currsize c
                 + (case size_of_key c key of Some old \<Rightarrow> get_size value - old
                                            | None \<Rightarrow> get_size value) \<le> tc_maxsize c"
  shows "cache_ok (store t c key value)"
proof -
  from ok have dist: "distinct (map en_key (tc_entries c))" by (simp add: cache_ok_def)
  have sum: "sum_list (map en_size (filter (\<lambda>e. en_key e \<noteq> key) (tc_entries c)))
      = tc_currsize c - (case size_of_key c key of Some old \<Rightarrow> old | None \<Rightarrow> 0)"
    using sum_without_key [OF dist, of key] ok
    by (simp add: cache_ok_def size_of_key_def split: option.splits)
  have d2: "distinct (map en_key (filter (\<lambda>e. en_key e \<noteq> key) (tc_entries c)))"
    using dist by (simp add: distinct_map_filter)
  have notin: "key \<notin> en_key ` set (filter (\<lambda>e. en_key e \<noteq> key) (tc_entries c))"
    by auto
  have sizes: "list_all (\<lambda>e. en_size e = get_size (en_value e))
      (filter (\<lambda>e. en_key e \<noteq> key) (tc_entries c))"
    using ok by (simp add: cache_ok_def list_all_iff)
  show ?thesis
    using sum d2 notin sizes fit
    by (cases "size_of_key c key") (simp_all add: cache_ok_def store_def Let_def)
qed


lemma size_of_key_nonneg:
  "cache_ok c \<Longrightarrow> size_of_key c key = Some old \<Longrightarrow> 0 \<le> old"
proof -
  assume ok: "cache_ok c" and k: "size_of_key c key = Some old"
  from k obtain e where f: "find (\<lambda>e. en_key e = key) (tc_entries c) = Some e" and o: "old = en_size e"
    by (auto simp: size_of_key_def)
  from f have "e \<in> set (tc_entries c)" by (auto simp: find_Some_iff)
  with ok have "en_size e = get_size (en_value e)" by (simp add: cache_ok_def list_all_iff)
  with o show ?thesis by (simp add: get_size_def)
qed

lemma ttl_setitem_too_large:
  "tc_maxsize c < get_size value \<Longrightarrow>
   ttl_setitem t c key value = (Some ''ValueError: value too large'', expire t c)"
  by (simp add: ttl_setitem_def Let_def)

lemma ttl_setitem_fits:
  assumes ok: "cache_ok c" and fit: "get_size value \<le> tc_maxsize c"
  shows "\<exists>c2. ttl_setitem t c key value = (None, store t c2 key value)
           \<and> tc_ttl c2 = tc_ttl c \<and> tc_maxsize c2 = tc_maxsize c
           \<and> cache_ok (store t c2 key value)"
proof -
  let ?c1 = "expire t c"
  let ?sz = "get_size value"
  have ok1: "cache_ok ?c1" using ok by (rule expire_ok)
  have fresh1: "list_all (\<lambda>e. t < en_expires e) (tc_entries ?c1)" by (rule expire_fresh)
  have fit1: "?sz \<le> tc_maxsize ?c1" using fit by simp
  show ?thesis
  proof (cases "size_of_key ?c1 key = None \<or> the (size_of_key ?c1 key) < ?sz")
    case True
    obtain x c2 where eq: "evict_loop t ?sz ?c1 = (x, c2)"
      by (cases "evict_loop t ?sz ?c1")
    from evict_loop_ok [OF ok1 fresh1 fit1] eq
    have ev: "x = None" "cache_ok c2"
      "tc_currsize c2 + ?sz \<le> tc_maxsize ?c1" "tc_maxsize c2 = tc_maxsize ?c1"
      "tc_ttl c2 = tc_ttl ?c1"
      by simp_all
    have old: "0 \<le> old" if "size_of_key c2 key = Some old" for old
      using size_of_key_nonneg [OF ev(2) that] .
    have fit2: "tc_currsize c2
        + (case size_of_key c2 key of Some old \<Rightarrow> ?sz - old | None \<Rightarrow> ?sz) \<le> tc_maxsize c2"
      using ev(3) ev(4) old by (cases "size_of_key c2 key") auto
    have st: "cache_ok (store t c2 key value)" using ev(2) fit2 by (rule store_ok)
    have "ttl_setitem t c key value = (None, store t c2 key value)"
      using True fit1 eq ev(1) by (simp add: ttl_setitem_def Let_def)
    with ev st show ?thesis by auto
  next
    case False
    then obtain old where o: "size_of_key ?c1 key = Some old" "?sz \<le> old" by auto
    have fit2: "tc_currsize ?c1
        + (case size_of_key ?c1 key of Some old \<Rightarrow> ?sz - old | None \<Rightarrow> ?sz) \<le> tc_maxsize ?c1"
      using o ok1 by (simp add: cache_ok_def)
    have st: "cache_ok (store t ?c1 key value)" using ok1 fit2 by (rule store_ok)
    have "ttl_setitem t c key value = (None, store t ?c1 key value)"
      using o fit1 by (simp add: ttl_setitem_def Let_def)
    with st show ?thesis by auto
  qed
qed

lemma ttl_setitem_ok: "cache_ok c \<Longrightarrow> cache_ok (snd (ttl_setitem t c key value))"
proof (cases "get_size value \<le> tc_maxsize c")
  case True
  assume "cache_ok c"
  from ttl_setitem_fits [OF this True, of t key] show ?thesis by auto
next
  case False
  assume "cache_ok c"
  then have "cache_ok (expire t c)" by (rule expire_ok)
  with False show ?thesis by (simp add: ttl_setitem_too_large)
qed

lemma ttl_get_after_store:
  "t' < t + real_of_int (tc_ttl c) \<Longrightarrow> fst (ttl_get t' (store t c key value) key) = Some value"
proof -
  assume live: "t' < t + real_of_int (tc_ttl c)"
  let ?new = "\<lparr>en_key = key, en_value = value, en_size = get_size value,
               en_expires = t + real_of_int (tc_ttl c)\<rparr>"
  have "find (\<lambda>e. en_key e = key) (filter (\<lambda>e. en_key e \<noteq> key) es @ [?new])
      = Some ?new" for es
    by (induction es) auto
  then show ?thesis using live by (simp add: ttl_get_def store_def Let_def)
qed

lemma ttl_get_ok: "cache_ok c \<Longrightarrow> cache_ok (snd (ttl_get t c key))"
proof -
  assume ok: "cache_ok c"
  show ?thesis
  proof (cases "find (\<lambda>e. en_key e = key) (tc_entries c)")
    case None
    with ok show ?thesis by (simp add: ttl_get_def)
  next
    case (Some e)
    then have mem: "e \<in> set (tc_entries c)" and k: "en_key e = key"
      by (auto simp: find_Some_iff)
    from ok have dist: "distinct (map en_key (tc_entries c))" by (simp add: cache_ok_def)
    have sum: "sum_list (map en_size (filter (\<lambda>e. en_key e \<noteq> key) (tc_entries c)))
        = sum_list (map en_size (tc_entries c)) - en_size e"
      using sum_without_key [OF dist, of key] Some by simp
    have d2: "distinct (map en_key (filter (\<lambda>e. en_key e \<noteq> key) (tc_entries c)))"
      using dist by (simp add: distinct_map_filter)
    have sizes: "list_all (\<lambda>e. en_size e = get_size (en_value e))
        (filter (\<lambda>e. en_key e \<noteq> key) (tc_entries c))"
      using ok by (simp add: cache_ok_def list_all_iff)
    have se: "en_size e = get_size (en_value e)"
      using ok mem by (simp add: cache_ok_def list_all_iff)
    show ?thesis
      using ok Some sum d2 sizes se k by (auto simp: ttl_get_def cache_ok_def)
  qed
qed

lemma cache_set_ok: "cache_ok c \<Longrightarrow> cache_ok (snd (cache_set cd t c key v))"
proof (cases "json_dumps cd v")
  case (Inl e)
  assume "cache_ok c"
  with Inl show ?thesis by (simp add: cache_set_def)
next
  case (Inr s)
  assume "cache_ok c"
  then have ok: "cache_ok (snd (ttl_setitem t c key s))" by (rule ttl_setitem_ok)
  obtain x c' where st: "ttl_setitem t c key s = (x, c')" by (cases "ttl_setitem t c key s")
  with ok Inr show ?thesis by (cases x) (simp_all add: cache_set_def)
qed

lemma cache_get_ok: "cache_ok c \<Longrightarrow> cache_ok (snd (cache_get cd t c key))"
proof -
  assume "cache_ok c"
  then have ok: "cache_ok (snd (ttl_get t c key))" by (rule ttl_get_ok)
  obtain x c' where g: "ttl_get t c key = (x, c')" by (cases "ttl_get t c key")
  with ok show ?thesis
    by (cases x) (simp_all add: cache_get_def split: sum.splits)
qed

text \<open>
  Claim C2, as it is stated, at a concrete input: with the default
  configuration (512 MB, 14 days) a value whose serialized form has
  536870913 bytes, one more than the capacity, is not stored. The library
  refuses it, \<open>set\<close> catches the exception and returns \<open>False\<close>, and the
  cache is as it was.
\<close>

theorem cache_set_oversized_counterexample:
  "cache_set \<lparr>json_dumps = Inr, json_loads = Inr\<rparr> 0 (cache_init 512 14) ''k''
     (replicate 536870913 CHR ''x'') = (False, cache_init 512 14)"
  by (simp add: cache_set_def ttl_setitem_def expire_def cache_init_def get_size_def Let_def)

text \<open>
  Claim C2, amended. A value whose serialized size exceeds the capacity is
  never stored: \<open>set\<close> returns \<open>False\<close>, raises nothing, and leaves the
  cache with only its expired entries dropped. On every cache the manager
  builds (with a capacity that is not negative) and after every \<open>set\<close> and
  \<open>get\<close>, the tracked size is the sum of the entries' sizes and does not
  exceed the capacity, with no exception for oversized values.
\<close>

theorem cache_capacity_never_exceeded:
  "(json_dumps cd v = Inr s \<and> tc_maxsize c < get_size s
      \<longrightarrow> cache_set cd t c key v = (False, expire t c))
   \<and> (0 \<le> mb \<longrightarrow> cache_ok (cache_init mb days))
   \<and> (cache_ok c \<longrightarrow>
        cache_ok (snd (cache_set cd t c key v))
        \<and> tc_currsize (snd (cache_set cd t c key v)) \<le> tc_maxsize (snd (cache_set cd t c key v))
        \<and> cache_ok (snd (cache_get cd t c key))
        \<and> tc_currsize (snd (cache_get cd t c key)) \<le> tc_maxsize (snd (cache_get cd t c key)))"
proof -
  have big: "cache_set cd t c key v = (False, expire t c)"
    if "json_dumps cd v = Inr s" "tc_maxsize c < get_size s"
    using that by (simp add: cache_set_def ttl_setitem_too_large)
  have init: "cache_ok (cache_init mb days)" if "0 \<le> mb"
    using that by (simp add: cache_ok_def cache_init_def)
  have inv: "cache_ok (snd (cache_set cd t c key v)) \<and> cache_ok (snd (cache_get cd t c key))"
    if "cache_ok c"
    using that by (simp add: cache_set_ok cache_get_ok)
  have le: "tc_currsize c' \<le> tc_maxsize c'" if "cache_ok c'" for c'
    using that by (simp add: cache_ok_def)
  show ?thesis using big init inv le by blast
qed

theorem cache_capacity_never_exceeded_witness:
  "json_dumps \<lparr>json_dumps = Inr, json_loads = Inr\<rparr> ''{}'' = Inr ''{}''
   \<and> tc_maxsize (cache_init 0 14) < get_size ''{}''
   \<and> (0::int) \<le> 0
   \<and> cache_ok (cache_init 0 14)
   \<and> cache_set \<lparr>json_dumps = Inr, json_loads = Inr\<rparr> 5 (cache_init 0 14) ''k'' ''{}''
       = (False, expire 5 (cache_init 0 14))
   \<and> cache_ok (snd (cache_set \<lparr>json_dumps = Inr, json_loads = Inr\<rparr> 5 (cache_init 0 14) ''k'' ''{}''))"
proof -
  have d: "json_dumps \<lparr>json_dumps = Inr, json_loads = Inr\<rparr> ''{}'' = Inr ''{}''" by simp
  have b: "tc_maxsize (cache_init 0 14) < get_size ''{}''"
    by (simp add: cache_init_def get_size_def)
  have z: "(0::int) \<le> 0" by simp
  note inst = cache_capacity_never_exceeded
      [of "\<lparr>json_dumps = Inr, json_loads = Inr\<rparr>" "''{}''" "''{}''" "cache_init 0 14" 5 "''k''" 0 14]
  from inst z have ok: "cache_ok (cache_init 0 14)" by blast
  from inst d b have st: "cache_set \<lparr>json_dumps = Inr, json_loads = Inr\<rparr> 5 (cache_init 0 14) ''k'' ''{}''
       = (False, expire 5 (cache_init 0 14))" by blast
  from inst ok have ok': "cache_ok (snd (cache_set \<lparr>json_dumps = Inr, json_loads = Inr\<rparr> 5
       (cache_init 0 14) ''k'' ''{}''))" by blast
  show ?thesis using d b z ok st ok' by blast
qed

text \<open>
  Claim C4, as it is stated, at two concrete inputs. With the default
  configuration (512 MB, 14 days) the payload of the previous counterexample
  round-trips through the codec, yet \<open>get\<close> right after \<open>set\<close> finds
  nothing, because the oversized value was refused. With a lifetime of 0 days
  a small payload is stored, and \<open>get\<close> one millisecond later finds nothing,
  because the entry's lifetime is over.
\<close>

theorem cache_round_trip_counterexample:
  "json_loads \<lparr>json_dumps = Inr, json_loads = Inr\<rparr> (replicate 536870913 CHR ''x'')
     = Inr (replicate 536870913 CHR ''x'')
   \<and> fst (cache_get \<lparr>json_dumps = Inr, json_loads = Inr\<rparr> 0
            (snd (cache_set \<lparr>json_dumps = Inr, json_loads = Inr\<rparr> 0 (cache_init 512 14) ''k''
                    (replicate 536870913 CHR ''x''))) ''k'') = None
   \<and> fst (cache_set \<lparr>json_dumps = Inr, json_loads = Inr\<rparr> 0 (cache_init 512 0) ''k'' ''[0, 1]'')
     = True
   \<and> fst (cache_get \<lparr>json_dumps = Inr, json_loads = Inr\<rparr> (1 / 1000)
            (snd (cache_set \<lparr>json_dumps = Inr, json_loads = Inr\<rparr> 0 (cache_init 512 0) ''k''
                    ''[0, 1]'')) ''k'') = None"
proof -
  have big: "json_loads \<lparr>json_dumps = Inr, json_loads = Inr\<rparr> (replicate 536870913 CHR ''x'')
     = Inr (replicate 536870913 CHR ''x'')
   \<and> fst (cache_get \<lparr>json_dumps = Inr, json_loads = Inr\<rparr> 0
            (snd (cache_set \<lparr>json_dumps = Inr, json_loads = Inr\<rparr> 0 (cache_init 512 14) ''k''
                    (replicate 536870913 CHR ''x''))) ''k'') = None"
    by (simp add: cache_set_def cache_get_def ttl_setitem_def ttl_get_def expire_def
        cache_init_def get_size_def Let_def)
  have stored: "cache_set \<lparr>json_dumps = Inr, json_loads = Inr\<rparr> 0 (cache_init 512 0) ''k'' ''[0, 1]''
     = (True, \<lparr>tc_maxsize = 536870912, tc_ttl = 0,
               tc_entries = [\<lparr>en_key = ''k'', en_value = ''[0, 1]'', en_size = 6, en_expires = 0\<rparr>],
               tc_currsize = 6\<rparr>)"
    by (simp add: cache_set_def ttl_setitem_def expire_def cache_init_def get_size_def
        size_of_key_def store_def evict_loop.simps Let_def)
  have gone: "fst (cache_get \<lparr>json_dumps = Inr, json_loads = Inr\<rparr> (1 / 1000)
            (snd (cache_set \<lparr>json_dumps = Inr, json_loads = Inr\<rparr> 0 (cache_init 512 0) ''k''
                    ''[0, 1]'')) ''k'') = None"
    by (simp add: stored cache_get_def ttl_get_def)
  show ?thesis using big stored gone by simp
qed

text \<open>
  Claim C4, amended. On a cache in its invariant, for a payload that
  serializes to valid JSON (the encoder gives a text that is not empty and
  that the decoder reads back as the payload) no larger than the capacity,
  \<open>set\<close> at the clock reading \<open>t\<close> succeeds, and \<open>get\<close> of the same key
  at any clock reading \<open>t'\<close> before the entry's lifetime is over, that is
  with \<open>t'\<close> below \<open>t\<close> plus the lifetime, returns the payload.
\<close>

theorem cache_round_trip:
  assumes "cache_ok c"
      and "json_dumps cd v = Inr s" and "s \<noteq> []" and "json_loads cd s = Inr v"
      and "get_size s \<le> tc_maxsize c"
      and "t' < t + real_of_int (tc_ttl c)"
  shows "fst (cache_set cd t c key v) = True
       \<and> fst (cache_get cd t' (snd (cache_set cd t c key v)) key) = Some v"
proof -
  from ttl_setitem_fits [OF assms(1) assms(5), of t key]
  obtain c2 where st: "ttl_setitem t c key s = (None, store t c2 key s)"
    and ttl: "tc_ttl c2 = tc_ttl c"
    by blast
  have set: "cache_set cd t c key v = (True, store t c2 key s)"
    using assms(2) st by (simp add: cache_set_def)
  have "t' < t + real_of_int (tc_ttl c2)" using ttl assms(6) by simp
  then have g: "fst (ttl_get t' (store t c2 key s) key) = Some s"
    by (rule ttl_get_after_store)
  obtain c3 where g': "ttl_get t' (store t c2 key s) key = (Some s, c3)"
    using g by (cases "ttl_get t' (store t c2 key s) key") auto
  have "fst (cache_get cd t' (store t c2 key s) key) = Some v"
    using g' assms(3) assms(4) by (simp add: cache_get_def)
  with set show ?thesis by simp
qed

theorem cache_round_trip_witness:
  "cache_ok (cache_init 512 14)
   \<and> json_dumps \<lparr>json_dumps = Inr, json_loads = Inr\<rparr> ''[0, 1]''
       = Inr ''[0, 1]''
   \<and> get_size ''[0, 1]'' \<le> tc_maxsize (cache_init 512 14)
   \<and> (8::real) < 7 + real_of_int (tc_ttl (cache_init 512 14))
   \<and> fst (cache_get \<lparr>json_dumps = Inr, json_loads = Inr\<rparr> 8
        (snd (cache_set \<lparr>json_dumps = Inr, json_loads = Inr\<rparr> 7 (cache_init 512 14) ''k''
                ''[0, 1]'')) ''k'') = Some ''[0, 1]''"
proof -
  have ok: "cache_ok (cache_init 512 14)" by (simp add: cache_ok_def cache_init_def)
  have d: "json_dumps \<lparr>json_dumps = Inr, json_loads = Inr\<rparr> ''[0, 1]''
       = Inr ''[0, 1]''" by simp
  have ne: "''[0, 1]'' \<noteq> []" by simp
  have l: "json_loads \<lparr>json_dumps = Inr, json_loads = Inr\<rparr> ''[0, 1]''
       = Inr ''[0, 1]''" by simp
  have fit: "get_size ''[0, 1]'' \<le> tc_maxsize (cache_init 512 14)"
    by (simp add: get_size_def cache_init_def)
  have live: "(8::real) < 7 + real_of_int (tc_ttl (cache_init 512 14))"
    by (simp add: cache_init_def)
  show ?thesis
    using ok d fit live cache_round_trip [OF ok d ne l fit live, of "''k''"] by simp
qed


section \<open>The aggregator: references of a symbol\<close>






section \<open>The aggregator: finding a symbol\<close>

lemma scan_files_exists:
  "scan_files env fs symbol_name dirpath files = Some p \<Longrightarrow> path_exists fs p"
  by (induction files)
     (auto simp: path_exists_def read_text_def split: if_splits sum.splits option.splits)

lemma scan_walk_exists:
  "scan_walk env fs symbol_name dirs = Some p \<Longrightarrow> path_exists fs p"
  by (induction dirs) (auto simp: scan_files_exists split: option.splits)

lemma find_symbol_file_exists:
  "find_symbol_file env ws symbol_name = Some p \<Longrightarrow> path_exists (ws_fs ws) p"
  by (simp add: find_symbol_file_def scan_walk_exists)

lemma extract_symbols_nonempty:
  "path_exists fs file_path \<Longrightarrow>
   extract_symbols env fs c file_path symbol_name scope = (Returned symbols, c1) \<Longrightarrow>
   symbols \<noteq> []"
  by (auto simp: extract_symbols_def split: prod.splits outcome.splits sum.splits if_splits)

lemma extract_symbols_stub:
  "path_exists fs file_path \<Longrightarrow>
   get_symbols (ae_lsp env) c file_path = (Returned v, c1) \<Longrightarrow>
   iterate v = Inr items \<Longrightarrow>
   symbols_loop file_path symbol_name scope items = Inr [] \<Longrightarrow>
   extract_symbols env fs c file_path symbol_name scope
     = (Returned [stub_symbol file_path symbol_name], c1)"
  by (simp add: extract_symbols_def)

text \<open>
  Claim C10. Whenever \<open>find_symbol\<close> returns a result with \<open>found\<close> true,
  the symbol search gave a file, the list of locations is not empty, and the
  message carries the number of locations returned. When none of the symbols
  the backend reports for that file passes the filter, the list holds exactly
  one location, the synthetic one: kind \<open>Unknown\<close>, line 1, in the file
  found.
\<close>

theorem find_symbol_found_locations:
  assumes "fst (find_symbol env m symbol_name) = Returned r" and "fr_found r"
  shows "fr_locations r \<noteq> []
       \<and> fr_message r = ''Found '' @ str_int (int (length (fr_locations r)))
                          @ '' occurrence(s) of '' @ [CHR 0x27] @ symbol_name @ [CHR 0x27]
       \<and> fr_symbol_name r = symbol_name
       \<and> (\<exists>file_path. find_symbol_file env (mg_ws m) symbol_name = Some file_path
            \<and> path_exists (ws_fs (mg_ws m)) file_path
            \<and> (\<forall>v c1 items.
                  get_symbols (ae_lsp env) (mg_client m) file_path = (Returned v, c1)
                  \<and> iterate v = Inr items
                  \<and> symbols_loop file_path symbol_name ''function'' items = Inr []
                  \<longrightarrow> fr_locations r =
                        [\<lparr>fl_file = file_path, fl_line = 1, fl_kind = ''Unknown'',
                          fl_name = symbol_name,
                          fl_documentation = ''Symbol '' @ symbol_name @ '' in ''
                                             @ basename file_path\<rparr>]))"
proof (cases "find_symbol_file env (mg_ws m) symbol_name")
  case None
  with assms show ?thesis by (auto simp: find_symbol_def)
next
  case (Some file_path)
  have ex: "path_exists (ws_fs (mg_ws m)) file_path"
    using Some by (rule find_symbol_file_exists)
  show ?thesis
  proof (cases "file_path = []")
    case True
    with Some assms show ?thesis by (auto simp: find_symbol_def)
  next
    case False
    obtain res c' where es: "extract_symbols env (ws_fs (mg_ws m)) (mg_client m)
                               file_path symbol_name ''function'' = (res, c')"
      by (cases "extract_symbols env (ws_fs (mg_ws m)) (mg_client m)
                   file_path symbol_name ''function''")
    show ?thesis
    proof (cases res)
      case (Returned symbols)
      let ?locations = "map (\<lambda>s. \<lparr>fl_file = loc_file (sym_location s),
                                    fl_line = loc_line (sym_location s),
                                    fl_kind = sym_kind s, fl_name = sym_name s,
                                    fl_documentation = sym_documentation s\<rparr>) symbols"
      have r: "r = \<lparr>fr_symbol_name = symbol_name, fr_found = True,
                     fr_message = ''Found '' @ str_int (int (length ?locations))
                                  @ '' occurrence(s) of '' @ [CHR 0x27]
                                  @ symbol_name @ [CHR 0x27],
                     fr_locations = ?locations\<rparr>"
        using assms(1) Some False es Returned by (auto simp: find_symbol_def)
      have ne: "symbols \<noteq> []"
        using ex es Returned extract_symbols_nonempty by blast
      have stub: "fr_locations r =
                        [\<lparr>fl_file = file_path, fl_line = 1, fl_kind = ''Unknown'',
                          fl_name = symbol_name,
                          fl_documentation = ''Symbol '' @ symbol_name @ '' in ''
                                             @ basename file_path\<rparr>]"
        if "get_symbols (ae_lsp env) (mg_client m) file_path = (Returned v, c1)"
           "iterate v = Inr items"
           "symbols_loop file_path symbol_name ''function'' items = Inr []"
        for v c1 items
      proof -
        from extract_symbols_stub [OF ex that] es Returned
        have "symbols = [stub_symbol file_path symbol_name]" by simp
        with r show ?thesis by (simp add: stub_symbol_def)
      qed
      from r ne have main: "fr_locations r \<noteq> []
         \<and> fr_message r = ''Found '' @ str_int (int (length (fr_locations r)))
                          @ '' occurrence(s) of '' @ [CHR 0x27] @ symbol_name @ [CHR 0x27]
         \<and> fr_symbol_name r = symbol_name"
        by simp
      from main Some ex stub show ?thesis by blast
    next
      case (Raised e)
      with Some False es assms show ?thesis by (auto simp: find_symbol_def)
    next
      case Hang
      with Some False es assms show ?thesis by (auto simp: find_symbol_def)
    qed
  qed
qed

theorem find_symbol_found_locations_witness:
  "fst (find_symbol
     \<lparr>ae_lsp = \<lparr>le_spawn = (\<lambda>cmd. Inl ''FileNotFoundError''), le_abspath = (\<lambda>p. p)\<rparr>,
       ae_declares = (\<lambda>n c. contains_str (''def '' @ n) c), ae_import_modules = (\<lambda>c. []),
       ae_token_len = (\<lambda>t. Some (length t)), ae_str = (\<lambda>ss ds rs. []),
       ae_codec = \<lparr>json_dumps = (\<lambda>p. Inl ''TypeError''), json_loads = (\<lambda>s. Inl ''ValueError'')\<rparr>,
       ae_sha256_hex = (\<lambda>s. Some s)\<rparr>
     \<lparr>mg_client = \<lparr>c_servers = [''python'' \<mapsto>
        \<lparr>s_language = ''python'', s_command = [''pylsp''], s_running = True, s_request_id = 1,
          s_inbound = [Frame \<lparr>m_id = Some 2, m_error = None, m_result = Some (Items
            [\<lparr>d_name = Some ''MockClass'', d_kind = Some 5, d_location = None,
               d_range = Some \<lparr>sp_start = Some (Some 5), sp_other_keys = True\<rparr>,
               d_detail = None, d_uri = None\<rparr>,
             \<lparr>d_name = Some ''mock_function'', d_kind = Some 12, d_location = None,
               d_range = Some \<lparr>sp_start = Some (Some 20), sp_other_keys = True\<rparr>,
               d_detail = None, d_uri = None\<rparr>])\<rparr>],
          s_outbound = []\<rparr>],
        c_initialized = True\<rparr>,
       mg_cache = cache_init 512 14,
       mg_ws = \<lparr>ws_fs = [''/w/m.py'' \<mapsto> File ''def foo(): pass''], ws_root = ''/w'',
                 ws_tree = Dir [''m.py''] []\<rparr>\<rparr> ''foo'')
   = Returned \<lparr>fr_symbol_name = ''foo'', fr_found = True,
               fr_message = ''Found 1 occurrence(s) of '' @ [CHR 0x27] @ ''foo'' @ [CHR 0x27],
               fr_locations = [\<lparr>fl_file = ''/w/m.py'', fl_line = 1, fl_kind = ''Unknown'',
                                 fl_name = ''foo'',
                                 fl_documentation = ''Symbol foo in m.py''\<rparr>]\<rparr>
   \<and> fr_locations \<lparr>fr_symbol_name = ''foo'', fr_found = True,
               fr_message = ''Found 1 occurrence(s) of '' @ [CHR 0x27] @ ''foo'' @ [CHR 0x27],
               fr_locations = [\<lparr>fl_file = ''/w/m.py'', fl_line = 1, fl_kind = ''Unknown'',
                                 fl_name = ''foo'',
                                 fl_documentation = ''Symbol foo in m.py''\<rparr>]\<rparr> \<noteq> []"
proof -
  let ?env = "\<lparr>ae_lsp = \<lparr>le_spawn = (\<lambda>cmd. Inl ''FileNotFoundError''), le_abspath = (\<lambda>p. p)\<rparr>,
       ae_declares = (\<lambda>n c. contains_str (''def '' @ n) c), ae_import_modules = (\<lambda>c. []),
       ae_token_len = (\<lambda>t. Some (length t)), ae_str = (\<lambda>ss ds rs. []),
       ae_codec = \<lparr>json_dumps = (\<lambda>p. Inl ''TypeError''), json_loads = (\<lambda>s. Inl ''ValueError'')\<rparr>,
       ae_sha256_hex = (\<lambda>s. Some s)\<rparr>"
  let ?m = "\<lparr>mg_client = \<lparr>c_servers = [''python'' \<mapsto>
        \<lparr>s_language = ''python'', s_command = [''pylsp''], s_running = True, s_request_id = 1,
          s_inbound = [Frame \<lparr>m_id = Some 2, m_error = None, m_result = Some (Items
            [\<lparr>d_name = Some ''MockClass'', d_kind = Some 5, d_location = None,
               d_range = Some \<lparr>sp_start = Some (Some 5), sp_other_keys = True\<rparr>,
               d_detail = None, d_uri = None\<rparr>,
             \<lparr>d_name = Some ''mock_function'', d_kind = Some 12, d_location = None,
               d_range = Some \<lparr>sp_start = Some (Some 20), sp_other_keys = True\<rparr>,
               d_detail = None, d_uri = None\<rparr>])\<rparr>],
          s_outbound = []\<rparr>],
        c_initialized = True\<rparr>,
       mg_cache = cache_init 512 14,
       mg_ws = \<lparr>ws_fs = [''/w/m.py'' \<mapsto> File ''def foo(): pass''], ws_root = ''/w'',
                 ws_tree = Dir [''m.py''] []\<rparr>\<rparr>"
  let ?r = "\<lparr>fr_symbol_name = ''foo'', fr_found = True,
               fr_message = ''Found 1 occurrence(s) of '' @ [CHR 0x27] @ ''foo'' @ [CHR 0x27],
               fr_locations = [\<lparr>fl_file = ''/w/m.py'', fl_line = 1, fl_kind = ''Unknown'',
                                 fl_name = ''foo'',
                                 fl_documentation = ''Symbol foo in m.py''\<rparr>]\<rparr>"
  have lang: "get_language_from_file ''/w/m.py'' = ''python''" by code_simp
  have py: "endswith ''m.py'' ''.py''" by code_simp
  have dir: "path_join ''/w'' ''m.py'' = ''/w/m.py''" by code_simp
  have src: "find_symbol_file ?env (mg_ws ?m) ''foo'' = Some ''/w/m.py''"
    by (simp add: find_symbol_file_def py dir read_text_def)
  have run: "fst (find_symbol ?env ?m ''foo'') = Returned ?r"
    using src
    by (simp add: find_symbol_def extract_symbols_def get_symbols_def lang start_server_def
        LANGUAGE_SERVERS_def session_get_symbols_def or_empty_def request_def truthy_def
        iterate_def keeps_def name_or_empty_def stub_symbol_def basename_def path_exists_def
        str_int_def Let_def)
  have found: "fr_found ?r" by simp
  from find_symbol_found_locations [OF run found] run show ?thesis by simp
qed

section \<open>The aggregator: the payload of a context request\<close>

lemma expire_entries: "set (tc_entries (expire t c)) \<subseteq> set (tc_entries c)"
  by (auto simp: expire_def)

lemma popitem_entries: "set (tc_entries (snd (popitem t c))) \<subseteq> set (tc_entries c)"
proof (cases "tc_entries (expire t c)")
  case Nil
  then show ?thesis using expire_entries [of t c] by (simp add: popitem_def Let_def)
next
  case (Cons e es)
  then show ?thesis using expire_entries [of t c] by (auto simp: popitem_def Let_def)
qed

lemma evict_loop_entries: "set (tc_entries (snd (evict_loop t sz c))) \<subseteq> set (tc_entries c)"
proof (induction t sz c rule: evict_loop.induct)
  case (1 t sz c)
  show ?case
  proof (cases "tc_currsize c + sz > tc_maxsize c")
    case False
    then show ?thesis by (simp add: evict_loop.simps [of t sz c])
  next
    case True
    obtain x c' where p: "popitem t c = (x, c')" by (cases "popitem t c")
    have sub: "set (tc_entries c') \<subseteq> set (tc_entries c)"
      using popitem_entries [of t c] p by simp
    show ?thesis
    proof (cases x)
      case (Some e)
      with True p sub show ?thesis by (simp add: evict_loop.simps [of t sz c])
    next
      case None
      from "1.IH" [OF True p [symmetric] None]
      have "set (tc_entries (snd (evict_loop t sz c'))) \<subseteq> set (tc_entries c')" .
      with True p None sub show ?thesis by (auto simp: evict_loop.simps [of t sz c])
    qed
  qed
qed

lemma ttl_setitem_values:
  "en_value ` set (tc_entries (snd (ttl_setitem t c key v)))
     \<subseteq> en_value ` set (tc_entries c) \<union> {v}"
proof -
  have e1: "set (tc_entries (expire t c)) \<subseteq> set (tc_entries c)" by (rule expire_entries)
  have st: "en_value ` set (tc_entries (store t c2 key v)) \<subseteq> en_value ` set (tc_entries c2) \<union> {v}"
    for c2
    by (auto simp: store_def Let_def)
  show ?thesis
  proof (cases "get_size v > tc_maxsize (expire t c)")
    case True
    then show ?thesis using e1 by (auto simp: ttl_setitem_def Let_def)
  next
    case False
    show ?thesis
    proof (cases "size_of_key (expire t c) key = None
                   \<or> the (size_of_key (expire t c) key) < get_size v")
      case True
      obtain x c2 where ev: "evict_loop t (get_size v) (expire t c) = (x, c2)"
        by (cases "evict_loop t (get_size v) (expire t c)")
      have sub: "set (tc_entries c2) \<subseteq> set (tc_entries c)"
        using evict_loop_entries [of t "get_size v" "expire t c"] ev e1 by auto
      show ?thesis
      proof (cases x)
        case (Some e)
        have "snd (ttl_setitem t c key v) = c2"
          using False True ev Some by (simp add: ttl_setitem_def Let_def del: expire_fields)
        then show ?thesis using sub by auto
      next
        case None
        have "snd (ttl_setitem t c key v) = store t c2 key v"
          using False True ev None by (simp add: ttl_setitem_def Let_def del: expire_fields)
        then show ?thesis using st [of c2] sub by auto
      qed
    next
      case no: False
      have "snd (ttl_setitem t c key v) = store t (expire t c) key v"
        using False no by (auto simp add: ttl_setitem_def Let_def simp del: expire_fields)
      then show ?thesis using st [of "expire t c"] e1 by auto
    qed
  qed
qed

lemma ttl_get_entries:
  "set (tc_entries (snd (ttl_get t c key))) \<subseteq> set (tc_entries c)"
proof (cases "find (\<lambda>e. en_key e = key) (tc_entries c)")
  case None
  then show ?thesis by (simp add: ttl_get_def)
next
  case (Some e)
  then have "e \<in> set (tc_entries c)"
    by (auto simp: find_Some_iff)
  with Some show ?thesis by (auto simp: ttl_get_def)
qed

lemma ttl_get_value:
  "fst (ttl_get t c key) = Some v \<Longrightarrow> v \<in> en_value ` set (tc_entries c)"
proof (cases "find (\<lambda>e. en_key e = key) (tc_entries c)")
  case None
  assume "fst (ttl_get t c key) = Some v"
  with None show ?thesis by (simp add: ttl_get_def)
next
  case (Some e)
  assume a: "fst (ttl_get t c key) = Some v"
  from Some have "e \<in> set (tc_entries c)"
    by (auto simp: find_Some_iff)
  with Some a show ?thesis by (auto simp: ttl_get_def split: if_splits)
qed

lemma cached_nonneg_values:
  assumes "en_value ` set (tc_entries c') \<subseteq> en_value ` set (tc_entries c)"
      and "cached_nonneg cd c"
  shows "cached_nonneg cd c'"
  unfolding cached_nonneg_def
proof (intro ballI allI impI)
  fix e q
  assume e: "e \<in> set (tc_entries c')" and q: "json_loads cd (en_value e) = Inr q"
  from e assms(1) have "en_value e \<in> en_value ` set (tc_entries c)" by blast
  then obtain e' where e': "e' \<in> set (tc_entries c)" "en_value e' = en_value e" by auto
  from assms(2) e'(1) have "\<forall>p. json_loads cd (en_value e') = Inr p \<longrightarrow> 0 \<le> p_tokens_saved p"
    unfolding cached_nonneg_def by blast
  with e'(2) q show "0 \<le> p_tokens_saved q" by simp
qed

lemma cache_get_entries:
  "set (tc_entries (snd (cache_get cd t c key))) \<subseteq> set (tc_entries c)"
proof -
  obtain x c' where g: "ttl_get t c key = (x, c')" by (cases "ttl_get t c key")
  have "snd (cache_get cd t c key) = c'"
    using g by (cases x) (simp_all add: cache_get_def split: sum.splits)
  then show ?thesis using ttl_get_entries [of t c key] g by simp
qed

lemma cache_get_nonneg:
  assumes "cached_nonneg cd c"
  shows "cached_nonneg cd (snd (cache_get cd t c key))"
proof -
  have "en_value ` set (tc_entries (snd (cache_get cd t c key))) \<subseteq> en_value ` set (tc_entries c)"
    using cache_get_entries [of cd t c key] by (rule image_mono)
  then show ?thesis using assms by (rule cached_nonneg_values)
qed

lemma cache_get_hit_nonneg:
  assumes "cached_nonneg cd c" and "fst (cache_get cd t c key) = Some p"
  shows "0 \<le> p_tokens_saved p"
proof -
  obtain x c' where g: "ttl_get t c key = (x, c')" by (cases "ttl_get t c key")
  from assms(2) g obtain v where x: "x = Some v" and l: "json_loads cd v = Inr p"
    by (cases x) (auto simp: cache_get_def split: sum.splits if_splits)
  from g x have "v \<in> en_value ` set (tc_entries c)"
    using ttl_get_value [of t c key v] by simp
  then obtain e where e: "e \<in> set (tc_entries c)" "en_value e = v" by auto
  from assms(1) e(1) have "\<forall>p. json_loads cd (en_value e) = Inr p \<longrightarrow> 0 \<le> p_tokens_saved p"
    unfolding cached_nonneg_def by blast
  with e(2) l show ?thesis by simp
qed

lemma cache_set_nonneg:
  assumes "round_trips cd" and "cached_nonneg cd c" and "0 \<le> p_tokens_saved p"
  shows "cached_nonneg cd (snd (cache_set cd t c key p))"
proof (cases "json_dumps cd p")
  case (Inl e)
  with assms(2) show ?thesis by (simp add: cache_set_def)
next
  case (Inr s)
  obtain x c' where st: "ttl_setitem t c key s = (x, c')" by (cases "ttl_setitem t c key s")
  have c': "snd (cache_set cd t c key p) = c'"
    using Inr st by (cases x) (simp_all add: cache_set_def)
  have vals: "en_value ` set (tc_entries c') \<subseteq> en_value ` set (tc_entries c) \<union> {s}"
    using ttl_setitem_values [of t c key s] st by simp
  have dec: "json_loads cd s = Inr p"
    using assms(1) Inr by (simp add: round_trips_def)
  have "cached_nonneg cd c'"
    unfolding cached_nonneg_def
  proof (intro ballI allI impI)
    fix e q
    assume e: "e \<in> set (tc_entries c')" and q: "json_loads cd (en_value e) = Inr q"
    from e vals have "en_value e \<in> en_value ` set (tc_entries c) \<or> en_value e = s" by auto
    then show "0 \<le> p_tokens_saved q"
    proof
      assume "en_value e \<in> en_value ` set (tc_entries c)"
      then obtain e' where e': "e' \<in> set (tc_entries c)" "en_value e' = en_value e" by auto
      from assms(2) e'(1)
      have "\<forall>p. json_loads cd (en_value e') = Inr p \<longrightarrow> 0 \<le> p_tokens_saved p"
        unfolding cached_nonneg_def by blast
      with e'(2) q show ?thesis by simp
    next
      assume "en_value e = s"
      with q dec assms(3) show ?thesis by simp
    qed
  qed
  with c' show ?thesis by simp
qed

lemma get_context_no_key:
  "generate_cache_key env query scope max_tokens = None \<Longrightarrow>
   get_context env t_get t_set m query scope max_tokens = (Raised ''UnicodeEncodeError'', m)"
  by (simp add: get_context_def)

lemma get_context_hit:
  "generate_cache_key env query scope max_tokens = Some key \<Longrightarrow>
   cache_get (ae_codec env) t_get (mg_cache m) key = (Some q, cache1) \<Longrightarrow>
   get_context env t_get t_set m query scope max_tokens = (Returned q, m\<lparr>mg_cache := cache1\<rparr>)"
  by (simp add: get_context_def)

lemma get_context_no_file:
  "generate_cache_key env query scope max_tokens = Some key \<Longrightarrow>
   cache_get (ae_codec env) t_get (mg_cache m) key = (None, cache1) \<Longrightarrow>
   resolve_file env (mg_ws m) query = (None, symbol_name) \<Longrightarrow>
   get_context env t_get t_set m query scope max_tokens
     = (Returned empty_result, m\<lparr>mg_cache := cache1\<rparr>)"
  by (simp add: get_context_def)

lemma get_context_computed:
  assumes "generate_cache_key env query scope max_tokens = Some key"
      and "cache_get (ae_codec env) t_get (mg_cache m) key = (None, cache1)"
      and "resolve_file env (mg_ws m) query = (Some file_path, symbol_name)"
      and "extract_symbols env (ws_fs (mg_ws m)) (mg_client m) file_path symbol_name scope
             = (Returned symbols, c1)"
      and "extract_references env c1 symbols = (Returned references, c2)"
      and "count_tokens env symbols (extract_dependencies env (ws_fs (mg_ws m)) symbols)
             references = Some optimized"
  shows "get_context env t_get t_set m query scope max_tokens =
     (Returned \<lparr>p_symbols = symbols,
                p_dependencies = extract_dependencies env (ws_fs (mg_ws m)) symbols,
                p_references = references,
                p_tokens_saved =
                  max 0 (estimate_raw_tokens env (ws_fs (mg_ws m)) file_path scope
                         - optimized)\<rparr>,
      m\<lparr>mg_client := c2,
        mg_cache := snd (cache_set (ae_codec env) t_set cache1 key
           \<lparr>p_symbols = symbols,
             p_dependencies = extract_dependencies env (ws_fs (mg_ws m)) symbols,
             p_references = references,
             p_tokens_saved =
               max 0 (estimate_raw_tokens env (ws_fs (mg_ws m)) file_path scope
                      - optimized)\<rparr>)\<rparr>)"
  using assms by (simp add: get_context_def Let_def split_beta)

lemma get_context_failed:
  assumes "generate_cache_key env query scope max_tokens = Some key"
      and "cache_get (ae_codec env) t_get (mg_cache m) key = (None, cache1)"
      and "resolve_file env (mg_ws m) query = (Some file_path, symbol_name)"
      and "extract_symbols env (ws_fs (mg_ws m)) (mg_client m) file_path symbol_name scope
             = (r1, c1)"
      and "\<forall>symbols. r1 = Returned symbols \<longrightarrow>
             (\<exists>r2 c2. extract_references env c1 symbols = (r2, c2)
                \<and> (\<forall>refs. r2 = Returned refs \<longrightarrow>
                      count_tokens env symbols
                        (extract_dependencies env (ws_fs (mg_ws m)) symbols) refs = None))"
  shows "mg_cache (snd (get_context env t_get t_set m query scope max_tokens)) = cache1
       \<and> (\<forall>p. fst (get_context env t_get t_set m query scope max_tokens) \<noteq> Returned p)"
proof (cases r1)
  case (Returned symbols)
  with assms(5) obtain r2 c2 where
    er: "extract_references env c1 symbols = (r2, c2)"
    and no: "\<forall>refs. r2 = Returned refs \<longrightarrow>
               count_tokens env symbols
                 (extract_dependencies env (ws_fs (mg_ws m)) symbols) refs = None"
    by blast
  from no show ?thesis
    using assms(1) assms(2) assms(3) assms(4) Returned er
    by (cases r2) (simp_all add: get_context_def Let_def)
next
  case (Raised e)
  then show ?thesis using assms(1) assms(2) assms(3) assms(4) by (simp add: get_context_def)
next
  case Hang
  then show ?thesis using assms(1) assms(2) assms(3) assms(4) by (simp add: get_context_def)
qed

lemma get_context_miss_cases:
  assumes "generate_cache_key env query scope max_tokens = Some key"
      and "cache_get (ae_codec env) t_get (mg_cache m) key = (None, cache1)"
      and "resolve_file env (mg_ws m) query = (Some file_path, symbol_name)"
  shows "(\<exists>symbols c1 references c2 optimized.
            extract_symbols env (ws_fs (mg_ws m)) (mg_client m) file_path symbol_name scope
              = (Returned symbols, c1)
            \<and> extract_references env c1 symbols = (Returned references, c2)
            \<and> count_tokens env symbols (extract_dependencies env (ws_fs (mg_ws m)) symbols)
                 references = Some optimized)
       \<or> (mg_cache (snd (get_context env t_get t_set m query scope max_tokens)) = cache1
           \<and> (\<forall>p. fst (get_context env t_get t_set m query scope max_tokens) \<noteq> Returned p))"
proof -
  obtain r1 c1 where es: "extract_symbols env (ws_fs (mg_ws m)) (mg_client m)
                            file_path symbol_name scope = (r1, c1)"
    by (cases "extract_symbols env (ws_fs (mg_ws m)) (mg_client m)
                 file_path symbol_name scope")
  show ?thesis
  proof (cases "\<exists>symbols references c2 optimized. r1 = Returned symbols
                  \<and> extract_references env c1 symbols = (Returned references, c2)
                  \<and> count_tokens env symbols
                       (extract_dependencies env (ws_fs (mg_ws m)) symbols) references
                     = Some optimized")
    case True
    with es show ?thesis by blast
  next
    case False
    have pre: "\<forall>symbols. r1 = Returned symbols \<longrightarrow>
             (\<exists>r2 c2. extract_references env c1 symbols = (r2, c2)
                \<and> (\<forall>refs. r2 = Returned refs \<longrightarrow>
                      count_tokens env symbols
                        (extract_dependencies env (ws_fs (mg_ws m)) symbols) refs = None))"
    proof (intro allI impI)
      fix symbols
      assume r1: "r1 = Returned symbols"
      obtain r2 c2 where er: "extract_references env c1 symbols = (r2, c2)"
        by (cases "extract_references env c1 symbols")
      have "\<forall>refs. r2 = Returned refs \<longrightarrow>
              count_tokens env symbols
                (extract_dependencies env (ws_fs (mg_ws m)) symbols) refs = None"
      proof (intro allI impI)
        fix refs
        assume r2: "r2 = Returned refs"
        show "count_tokens env symbols
                (extract_dependencies env (ws_fs (mg_ws m)) symbols) refs = None"
        proof (cases "count_tokens env symbols
                        (extract_dependencies env (ws_fs (mg_ws m)) symbols) refs")
          case None
          then show ?thesis .
        next
          case (Some optimized)
          with False r1 r2 er show ?thesis by blast
        qed
      qed
      with er show "\<exists>r2 c2. extract_references env c1 symbols = (r2, c2)
                \<and> (\<forall>refs. r2 = Returned refs \<longrightarrow>
                      count_tokens env symbols
                        (extract_dependencies env (ws_fs (mg_ws m)) symbols) refs = None)"
        by blast
    qed
    from get_context_failed [OF assms es pre, of t_set] show ?thesis by blast
  qed
qed

lemma sample_context:
  "get_context
     \<lparr>ae_lsp = \<lparr>le_spawn = (\<lambda>cmd. Inl ''FileNotFoundError''), le_abspath = (\<lambda>p. p)\<rparr>,
       ae_declares = (\<lambda>n c. False), ae_import_modules = (\<lambda>c. [Some ''os'']),
       ae_token_len = (\<lambda>t. Some (length t)), ae_str = (\<lambda>ss ds rs. ''ctx''),
       ae_codec = \<lparr>json_dumps = (\<lambda>p. if p = \<lparr>p_symbols = [\<lparr>sym_name = ''b'', sym_kind = ''Unknown'',
                    sym_location = \<lparr>loc_file = ''a'', loc_line = 1\<rparr>,
                    sym_documentation = ''Symbol b in a''\<rparr>],
       p_dependencies = [\<lparr>dep_module = ''os'', dep_summary = ''Imported by a''\<rparr>],
       p_references = [], p_tokens_saved = 6\<rparr> then Inr ''P1'' else Inl ''TypeError''),
       json_loads = (\<lambda>s. if s = ''P1'' then Inr \<lparr>p_symbols = [\<lparr>sym_name = ''b'', sym_kind = ''Unknown'',
                    sym_location = \<lparr>loc_file = ''a'', loc_line = 1\<rparr>,
                    sym_documentation = ''Symbol b in a''\<rparr>],
       p_dependencies = [\<lparr>dep_module = ''os'', dep_summary = ''Imported by a''\<rparr>],
       p_references = [], p_tokens_saved = 6\<rparr> else Inl ''JSONDecodeError'')\<rparr>,
       ae_sha256_hex = (\<lambda>s. Some s)\<rparr> 0 1
     \<lparr>mg_client = \<lparr>c_servers = Map.empty, c_initialized = False\<rparr>, mg_cache = cache_init 512 14, mg_ws = \<lparr>ws_fs = [''a'' \<mapsto> File ''import os''], ws_root = ''/w'', ws_tree = Dir [] []\<rparr>\<rparr> ''a:b'' ''c'' 4096
   = (Returned
        \<lparr>p_symbols = [\<lparr>sym_name = ''b'', sym_kind = ''Unknown'',
                    sym_location = \<lparr>loc_file = ''a'', loc_line = 1\<rparr>,
                    sym_documentation = ''Symbol b in a''\<rparr>],
       p_dependencies = [\<lparr>dep_module = ''os'', dep_summary = ''Imported by a''\<rparr>],
       p_references = [], p_tokens_saved = 6\<rparr>,
      \<lparr>mg_client = \<lparr>c_servers = Map.empty, c_initialized = False\<rparr>, mg_cache = cache_init 512 14, mg_ws = \<lparr>ws_fs = [''a'' \<mapsto> File ''import os''], ws_root = ''/w'', ws_tree = Dir [] []\<rparr>\<rparr>
      \<lparr>mg_cache := snd (cache_set
           \<lparr>json_dumps = (\<lambda>p. if p = \<lparr>p_symbols = [\<lparr>sym_name = ''b'', sym_kind = ''Unknown'',
                    sym_location = \<lparr>loc_file = ''a'', loc_line = 1\<rparr>,
                    sym_documentation = ''Symbol b in a''\<rparr>],
       p_dependencies = [\<lparr>dep_module = ''os'', dep_summary = ''Imported by a''\<rparr>],
       p_references = [], p_tokens_saved = 6\<rparr> then Inr ''P1'' else Inl ''TypeError''),
       json_loads = (\<lambda>s. if s = ''P1'' then Inr \<lparr>p_symbols = [\<lparr>sym_name = ''b'', sym_kind = ''Unknown'',
                    sym_location = \<lparr>loc_file = ''a'', loc_line = 1\<rparr>,
                    sym_documentation = ''Symbol b in a''\<rparr>],
       p_dependencies = [\<lparr>dep_module = ''os'', dep_summary = ''Imported by a''\<rparr>],
       p_references = [], p_tokens_saved = 6\<rparr> else Inl ''JSONDecodeError'')\<rparr> 1 (cache_init 512 14) ''a:b:c:4096''
           \<lparr>p_symbols = [\<lparr>sym_name = ''b'', sym_kind = ''Unknown'',
                    sym_location = \<lparr>loc_file = ''a'', loc_line = 1\<rparr>,
                    sym_documentation = ''Symbol b in a''\<rparr>],
       p_dependencies = [\<lparr>dep_module = ''os'', dep_summary = ''Imported by a''\<rparr>],
       p_references = [], p_tokens_saved = 6\<rparr>)\<rparr>)
   \<and> resolve_file
     \<lparr>ae_lsp = \<lparr>le_spawn = (\<lambda>cmd. Inl ''FileNotFoundError''), le_abspath = (\<lambda>p. p)\<rparr>,
       ae_declares = (\<lambda>n c. False), ae_import_modules = (\<lambda>c. [Some ''os'']),
       ae_token_len = (\<lambda>t. Some (length t)), ae_str = (\<lambda>ss ds rs. ''ctx''),
       ae_codec = \<lparr>json_dumps = (\<lambda>p. if p = \<lparr>p_symbols = [\<lparr>sym_name = ''b'', sym_kind = ''Unknown'',
                    sym_location = \<lparr>loc_file = ''a'', loc_line = 1\<rparr>,
                    sym_documentation = ''Symbol b in a''\<rparr>],
       p_dependencies = [\<lparr>dep_module = ''os'', dep_summary = ''Imported by a''\<rparr>],
       p_references = [], p_tokens_saved = 6\<rparr> then Inr ''P1'' else Inl ''TypeError''),
       json_loads = (\<lambda>s. if s = ''P1'' then Inr \<lparr>p_symbols = [\<lparr>sym_name = ''b'', sym_kind = ''Unknown'',
                    sym_location = \<lparr>loc_file = ''a'', loc_line = 1\<rparr>,
                    sym_documentation = ''Symbol b in a''\<rparr>],
       p_dependencies = [\<lparr>dep_module = ''os'', dep_summary = ''Imported by a''\<rparr>],
       p_references = [], p_tokens_saved = 6\<rparr> else Inl ''JSONDecodeError'')\<rparr>,
       ae_sha256_hex = (\<lambda>s. Some s)\<rparr>
     \<lparr>ws_fs = [''a'' \<mapsto> File ''import os''], ws_root = ''/w'', ws_tree = Dir [] []\<rparr> ''a:b'' = (Some ''a'', ''b'')
   \<and> cache_get
     \<lparr>json_dumps = (\<lambda>p. if p = \<lparr>p_symbols = [\<lparr>sym_name = ''b'', sym_kind = ''Unknown'',
                    sym_location = \<lparr>loc_file = ''a'', loc_line = 1\<rparr>,
                    sym_documentation = ''Symbol b in a''\<rparr>],
       p_dependencies = [\<lparr>dep_module = ''os'', dep_summary = ''Imported by a''\<rparr>],
       p_references = [], p_tokens_saved = 6\<rparr> then Inr ''P1'' else Inl ''TypeError''),
       json_loads = (\<lambda>s. if s = ''P1'' then Inr \<lparr>p_symbols = [\<lparr>sym_name = ''b'', sym_kind = ''Unknown'',
                    sym_location = \<lparr>loc_file = ''a'', loc_line = 1\<rparr>,
                    sym_documentation = ''Symbol b in a''\<rparr>],
       p_dependencies = [\<lparr>dep_module = ''os'', dep_summary = ''Imported by a''\<rparr>],
       p_references = [], p_tokens_saved = 6\<rparr> else Inl ''JSONDecodeError'')\<rparr> 0 (cache_init 512 14) ''a:b:c:4096'' = (None, cache_init 512 14)
   \<and> generate_cache_key
     \<lparr>ae_lsp = \<lparr>le_spawn = (\<lambda>cmd. Inl ''FileNotFoundError''), le_abspath = (\<lambda>p. p)\<rparr>,
       ae_declares = (\<lambda>n c. False), ae_import_modules = (\<lambda>c. [Some ''os'']),
       ae_token_len = (\<lambda>t. Some (length t)), ae_str = (\<lambda>ss ds rs. ''ctx''),
       ae_codec = \<lparr>json_dumps = (\<lambda>p. if p = \<lparr>p_symbols = [\<lparr>sym_name = ''b'', sym_kind = ''Unknown'',
                    sym_location = \<lparr>loc_file = ''a'', loc_line = 1\<rparr>,
                    sym_documentation = ''Symbol b in a''\<rparr>],
       p_dependencies = [\<lparr>dep_module = ''os'', dep_summary = ''Imported by a''\<rparr>],
       p_references = [], p_tokens_saved = 6\<rparr> then Inr ''P1'' else Inl ''TypeError''),
       json_loads = (\<lambda>s. if s = ''P1'' then Inr \<lparr>p_symbols = [\<lparr>sym_name = ''b'', sym_kind = ''Unknown'',
                    sym_location = \<lparr>loc_file = ''a'', loc_line = 1\<rparr>,
                    sym_documentation = ''Symbol b in a''\<rparr>],
       p_dependencies = [\<lparr>dep_module = ''os'', dep_summary = ''Imported by a''\<rparr>],
       p_references = [], p_tokens_saved = 6\<rparr> else Inl ''JSONDecodeError'')\<rparr>,
       ae_sha256_hex = (\<lambda>s. Some s)\<rparr> ''a:b'' ''c'' 4096 = Some ''a:b:c:4096''"
proof -
  let ?cd = "\<lparr>json_dumps = (\<lambda>p. if p = \<lparr>p_symbols = [\<lparr>sym_name = ''b'', sym_kind = ''Unknown'',
                    sym_location = \<lparr>loc_file = ''a'', loc_line = 1\<rparr>,
                    sym_documentation = ''Symbol b in a''\<rparr>],
       p_dependencies = [\<lparr>dep_module = ''os'', dep_summary = ''Imported by a''\<rparr>],
       p_references = [], p_tokens_saved = 6\<rparr> then Inr ''P1'' else Inl ''TypeError''),
       json_loads = (\<lambda>s. if s = ''P1'' then Inr \<lparr>p_symbols = [\<lparr>sym_name = ''b'', sym_kind = ''Unknown'',
                    sym_location = \<lparr>loc_file = ''a'', loc_line = 1\<rparr>,
                    sym_documentation = ''Symbol b in a''\<rparr>],
       p_dependencies = [\<lparr>dep_module = ''os'', dep_summary = ''Imported by a''\<rparr>],
       p_references = [], p_tokens_saved = 6\<rparr> else Inl ''JSONDecodeError'')\<rparr>"
  let ?env = "\<lparr>ae_lsp = \<lparr>le_spawn = (\<lambda>cmd. Inl ''FileNotFoundError''), le_abspath = (\<lambda>p. p)\<rparr>,
       ae_declares = (\<lambda>n c. False), ae_import_modules = (\<lambda>c. [Some ''os'']),
       ae_token_len = (\<lambda>t. Some (length t)), ae_str = (\<lambda>ss ds rs. ''ctx''),
       ae_codec = \<lparr>json_dumps = (\<lambda>p. if p = \<lparr>p_symbols = [\<lparr>sym_name = ''b'', sym_kind = ''Unknown'',
                    sym_location = \<lparr>loc_file = ''a'', loc_line = 1\<rparr>,
                    sym_documentation = ''Symbol b in a''\<rparr>],
       p_dependencies = [\<lparr>dep_module = ''os'', dep_summary = ''Imported by a''\<rparr>],
       p_references = [], p_tokens_saved = 6\<rparr> then Inr ''P1'' else Inl ''TypeError''),
       json_loads = (\<lambda>s. if s = ''P1'' then Inr \<lparr>p_symbols = [\<lparr>sym_name = ''b'', sym_kind = ''Unknown'',
                    sym_location = \<lparr>loc_file = ''a'', loc_line = 1\<rparr>,
                    sym_documentation = ''Symbol b in a''\<rparr>],
       p_dependencies = [\<lparr>dep_module = ''os'', dep_summary = ''Imported by a''\<rparr>],
       p_references = [], p_tokens_saved = 6\<rparr> else Inl ''JSONDecodeError'')\<rparr>,
       ae_sha256_hex = (\<lambda>s. Some s)\<rparr>"
  let ?c = "\<lparr>c_servers = Map.empty, c_initialized = False\<rparr>"
  let ?ws = "\<lparr>ws_fs = [''a'' \<mapsto> File ''import os''], ws_root = ''/w'', ws_tree = Dir [] []\<rparr>"
  let ?m = "\<lparr>mg_client = \<lparr>c_servers = Map.empty, c_initialized = False\<rparr>, mg_cache = cache_init 512 14, mg_ws = \<lparr>ws_fs = [''a'' \<mapsto> File ''import os''], ws_root = ''/w'', ws_tree = Dir [] []\<rparr>\<rparr>"
  let ?stub = "\<lparr>sym_name = ''b'', sym_kind = ''Unknown'',
                    sym_location = \<lparr>loc_file = ''a'', loc_line = 1\<rparr>,
                    sym_documentation = ''Symbol b in a''\<rparr>"
  have lang: "get_language_from_file ''a'' = ''unknown''" by code_simp
  have key: "generate_cache_key ?env ''a:b'' ''c'' 4096 = Some ''a:b:c:4096''"
    by (simp add: generate_cache_key_def str_int_def)
  have miss: "cache_get ?cd 0 (cache_init 512 14) ''a:b:c:4096'' = (None, cache_init 512 14)"
    by (simp add: cache_get_def ttl_get_def cache_init_def)
  have miss': "cache_get (ae_codec ?env) 0 (mg_cache ?m) ''a:b:c:4096''
                 = (None, cache_init 512 14)"
    using miss by simp
  have res: "resolve_file ?env ?ws ''a:b'' = (Some ''a'', ''b'')"
    by (simp add: resolve_file_def parse_query_def split_first_def path_exists_def)
  have res': "resolve_file ?env (mg_ws ?m) ''a:b'' = (Some ''a'', ''b'')"
    using res by simp
  have syms: "extract_symbols ?env (ws_fs (mg_ws ?m)) (mg_client ?m) ''a'' ''b'' ''c''
                = (Returned [?stub], ?c)"
    by (simp add: extract_symbols_def get_symbols_def lang start_server_def LANGUAGE_SERVERS_def
        iterate_def stub_symbol_def basename_def path_exists_def)
  have refs: "extract_references ?env ?c [?stub] = (Returned [], ?c)"
    by (simp add: get_references_def lang start_server_def LANGUAGE_SERVERS_def first_five_def)
  have deps: "extract_dependencies ?env (ws_fs (mg_ws ?m)) [?stub]
                = [\<lparr>dep_module = ''os'', dep_summary = ''Imported by a''\<rparr>]"
    by (simp add: extract_dependencies_def path_exists_def read_text_def basename_def)
  have raw: "estimate_raw_tokens ?env (ws_fs (mg_ws ?m)) ''a'' ''c'' = 9"
    by (simp add: estimate_raw_tokens_def path_exists_def read_text_def)
  have opt: "count_tokens ?env [?stub]
               (extract_dependencies ?env (ws_fs (mg_ws ?m)) [?stub]) [] = Some 3"
    by (simp add: count_tokens_def)
  from get_context_computed [OF key miss' res' syms refs opt, of 1] deps raw
  have "get_context ?env 0 1 ?m ''a:b'' ''c'' 4096
          = (Returned \<lparr>p_symbols = [\<lparr>sym_name = ''b'', sym_kind = ''Unknown'',
                    sym_location = \<lparr>loc_file = ''a'', loc_line = 1\<rparr>,
                    sym_documentation = ''Symbol b in a''\<rparr>],
       p_dependencies = [\<lparr>dep_module = ''os'', dep_summary = ''Imported by a''\<rparr>],
       p_references = [], p_tokens_saved = 6\<rparr>,
             ?m\<lparr>mg_cache := snd (cache_set ?cd 1 (cache_init 512 14) ''a:b:c:4096''
                  \<lparr>p_symbols = [\<lparr>sym_name = ''b'', sym_kind = ''Unknown'',
                    sym_location = \<lparr>loc_file = ''a'', loc_line = 1\<rparr>,
                    sym_documentation = ''Symbol b in a''\<rparr>],
       p_dependencies = [\<lparr>dep_module = ''os'', dep_summary = ''Imported by a''\<rparr>],
       p_references = [], p_tokens_saved = 6\<rparr>)\<rparr>)"
    by simp
  with res miss key show ?thesis by simp
qed

text \<open>
  Claim C8. With a codec that gives back what it encoded, and a cache whose
  texts decode to payloads with a \<open>tokens_saved\<close> that is not negative
  (the cache the manager starts with is one, and every call keeps it so,
  whatever its outcome),
  the \<open>tokens_saved\<close> of every payload that \<open>get_context\<close> returns is
  not negative. When the lookup misses and a file is resolved, it is the
  estimate of the raw cost of that file under the scope minus the token count
  of the payload's own symbols, dependencies and references, floored at zero;
  when no file is resolved the payload is the empty one, with 0; on a hit it
  is the payload that was cached.
\<close>

theorem tokens_saved_floor:
  assumes "round_trips (ae_codec env)" and "cached_nonneg (ae_codec env) (mg_cache m)"
  shows "cached_nonneg (ae_codec env)
           (mg_cache (snd (get_context env t_get t_set m query scope max_tokens)))
       \<and> (fst (get_context env t_get t_set m query scope max_tokens) = Returned p \<longrightarrow>
            0 \<le> p_tokens_saved p
            \<and> (\<exists>key. generate_cache_key env query scope max_tokens = Some key
                 \<and> (fst (cache_get (ae_codec env) t_get (mg_cache m) key) = None \<longrightarrow>
                      (case fst (resolve_file env (mg_ws m) query) of
                         None \<Rightarrow> p = empty_result
                       | Some file_path \<Rightarrow>
                           (\<exists>optimized.
                              count_tokens env (p_symbols p) (p_dependencies p)
                                (p_references p) = Some optimized
                              \<and> p_tokens_saved p =
                                  max 0 (estimate_raw_tokens env (ws_fs (mg_ws m))
                                           file_path scope - optimized))))
                 \<and> (\<forall>q. fst (cache_get (ae_codec env) t_get (mg_cache m) key) = Some q
                          \<longrightarrow> p = q)))
       \<and> cached_nonneg (ae_codec env) (cache_init cache_size_mb cache_ttl_days)"
proof -
  have init: "cached_nonneg (ae_codec env) (cache_init cache_size_mb cache_ttl_days)"
    by (simp add: cached_nonneg_def cache_init_def)
  have main: "cached_nonneg (ae_codec env)
           (mg_cache (snd (get_context env t_get t_set m query scope max_tokens)))
       \<and> (fst (get_context env t_get t_set m query scope max_tokens) = Returned p \<longrightarrow>
            0 \<le> p_tokens_saved p
            \<and> (\<exists>key. generate_cache_key env query scope max_tokens = Some key
                 \<and> (fst (cache_get (ae_codec env) t_get (mg_cache m) key) = None \<longrightarrow>
                      (case fst (resolve_file env (mg_ws m) query) of
                         None \<Rightarrow> p = empty_result
                       | Some file_path \<Rightarrow>
                           (\<exists>optimized.
                              count_tokens env (p_symbols p) (p_dependencies p)
                                (p_references p) = Some optimized
                              \<and> p_tokens_saved p =
                                  max 0 (estimate_raw_tokens env (ws_fs (mg_ws m))
                                           file_path scope - optimized))))
                 \<and> (\<forall>q. fst (cache_get (ae_codec env) t_get (mg_cache m) key) = Some q
                          \<longrightarrow> p = q)))"
  proof (cases "generate_cache_key env query scope max_tokens")
  case None
  then have "get_context env t_get t_set m query scope max_tokens
               = (Raised ''UnicodeEncodeError'', m)"
    by (rule get_context_no_key)
  with assms(2) show ?thesis by simp
next
  case (Some key)
  let ?run = "get_context env t_get t_set m query scope max_tokens"
  obtain cached cache1 where cg: "cache_get (ae_codec env) t_get (mg_cache m) key = (cached, cache1)"
    by (cases "cache_get (ae_codec env) t_get (mg_cache m) key")
  have inv1: "cached_nonneg (ae_codec env) cache1"
    using cache_get_nonneg [OF assms(2), of t_get key] cg by simp
  show ?thesis
  proof (cases cached)
    case hit: (Some q)
    have run: "?run = (Returned q, m\<lparr>mg_cache := cache1\<rparr>)"
      using Some cg hit by (simp add: get_context_hit)
    have "0 \<le> p_tokens_saved q"
      using cache_get_hit_nonneg [OF assms(2), of t_get key q] cg hit by simp
    with run cg hit inv1 Some show ?thesis by auto
  next
    case None
    obtain fp symbol_name where rf: "resolve_file env (mg_ws m) query = (fp, symbol_name)"
      by (cases "resolve_file env (mg_ws m) query")
    have cg': "cache_get (ae_codec env) t_get (mg_cache m) key = (None, cache1)"
      using cg None by simp
    show ?thesis
    proof (cases fp)
      case no_file: None
      have run: "?run = (Returned empty_result, m\<lparr>mg_cache := cache1\<rparr>)"
        using Some cg' rf no_file by (simp add: get_context_no_file)
      with cg' rf no_file inv1 Some show ?thesis by (auto simp: empty_result_def)
    next
      case found: (Some file_path)
      have rf': "resolve_file env (mg_ws m) query = (Some file_path, symbol_name)"
        using rf found by simp
      from get_context_miss_cases [OF Some cg' rf', of t_set]
      show ?thesis
      proof
        assume "\<exists>symbols c1 references c2 optimized.
            extract_symbols env (ws_fs (mg_ws m)) (mg_client m) file_path symbol_name scope
              = (Returned symbols, c1)
            \<and> extract_references env c1 symbols = (Returned references, c2)
            \<and> count_tokens env symbols (extract_dependencies env (ws_fs (mg_ws m)) symbols)
                 references = Some optimized"
        then obtain symbols c1 references c2 optimized where
          es: "extract_symbols env (ws_fs (mg_ws m)) (mg_client m) file_path symbol_name scope
                 = (Returned symbols, c1)"
          and er: "extract_references env c1 symbols = (Returned references, c2)"
          and ct: "count_tokens env symbols (extract_dependencies env (ws_fs (mg_ws m)) symbols)
                     references = Some optimized"
          by blast
        let ?deps = "extract_dependencies env (ws_fs (mg_ws m)) symbols"
        let ?saved = "max 0 (estimate_raw_tokens env (ws_fs (mg_ws m)) file_path scope
                             - optimized)"
        let ?result = "\<lparr>p_symbols = symbols, p_dependencies = ?deps,
                        p_references = references, p_tokens_saved = ?saved\<rparr>"
        have run: "?run = (Returned ?result,
                           m\<lparr>mg_client := c2,
                             mg_cache := snd (cache_set (ae_codec env) t_set cache1 key ?result)\<rparr>)"
          using get_context_computed [OF Some cg' rf' es er ct, of t_set] by simp
        have nonneg: "0 \<le> p_tokens_saved ?result" by simp
        have inv2: "cached_nonneg (ae_codec env)
                      (snd (cache_set (ae_codec env) t_set cache1 key ?result))"
          using assms(1) inv1 nonneg by (rule cache_set_nonneg)
        from run inv2 have a: "cached_nonneg (ae_codec env) (mg_cache (snd ?run))" by simp
        have b: "fst ?run = Returned p \<longrightarrow>
            0 \<le> p_tokens_saved p
            \<and> (\<exists>key. generate_cache_key env query scope max_tokens = Some key
                 \<and> (fst (cache_get (ae_codec env) t_get (mg_cache m) key) = None \<longrightarrow>
                      (case fst (resolve_file env (mg_ws m) query) of
                         None \<Rightarrow> p = empty_result
                       | Some file_path \<Rightarrow>
                           (\<exists>optimized.
                              count_tokens env (p_symbols p) (p_dependencies p)
                                (p_references p) = Some optimized
                              \<and> p_tokens_saved p =
                                  max 0 (estimate_raw_tokens env (ws_fs (mg_ws m))
                                           file_path scope - optimized))))
                 \<and> (\<forall>q. fst (cache_get (ae_codec env) t_get (mg_cache m) key) = Some q
                          \<longrightarrow> p = q))"
          using run cg' rf' Some ct by auto
        from a b show ?thesis by (rule conjI)
      next
        assume "mg_cache (snd ?run) = cache1 \<and> (\<forall>p. fst ?run \<noteq> Returned p)"
        with inv1 show ?thesis by simp
      qed
    qed
  qed
qed
  from main init show ?thesis by simp
qed

theorem tokens_saved_floor_witness:
  "round_trips
     \<lparr>json_dumps = (\<lambda>p. if p = \<lparr>p_symbols = [\<lparr>sym_name = ''b'', sym_kind = ''Unknown'',
                    sym_location = \<lparr>loc_file = ''a'', loc_line = 1\<rparr>,
                    sym_documentation = ''Symbol b in a''\<rparr>],
       p_dependencies = [\<lparr>dep_module = ''os'', dep_summary = ''Imported by a''\<rparr>],
       p_references = [], p_tokens_saved = 6\<rparr> then Inr ''P1'' else Inl ''TypeError''),
       json_loads = (\<lambda>s. if s = ''P1'' then Inr \<lparr>p_symbols = [\<lparr>sym_name = ''b'', sym_kind = ''Unknown'',
                    sym_location = \<lparr>loc_file = ''a'', loc_line = 1\<rparr>,
                    sym_documentation = ''Symbol b in a''\<rparr>],
       p_dependencies = [\<lparr>dep_module = ''os'', dep_summary = ''Imported by a''\<rparr>],
       p_references = [], p_tokens_saved = 6\<rparr> else Inl ''JSONDecodeError'')\<rparr>
   \<and> cached_nonneg
     \<lparr>json_dumps = (\<lambda>p. if p = \<lparr>p_symbols = [\<lparr>sym_name = ''b'', sym_kind = ''Unknown'',
                    sym_location = \<lparr>loc_file = ''a'', loc_line = 1\<rparr>,
                    sym_documentation = ''Symbol b in a''\<rparr>],
       p_dependencies = [\<lparr>dep_module = ''os'', dep_summary = ''Imported by a''\<rparr>],
       p_references = [], p_tokens_saved = 6\<rparr> then Inr ''P1'' else Inl ''TypeError''),
       json_loads = (\<lambda>s. if s = ''P1'' then Inr \<lparr>p_symbols = [\<lparr>sym_name = ''b'', sym_kind = ''Unknown'',
                    sym_location = \<lparr>loc_file = ''a'', loc_line = 1\<rparr>,
                    sym_documentation = ''Symbol b in a''\<rparr>],
       p_dependencies = [\<lparr>dep_module = ''os'', dep_summary = ''Imported by a''\<rparr>],
       p_references = [], p_tokens_saved = 6\<rparr> else Inl ''JSONDecodeError'')\<rparr> (cache_init 512 14)
   \<and> fst (get_context
     \<lparr>ae_lsp = \<lparr>le_spawn = (\<lambda>cmd. Inl ''FileNotFoundError''), le_abspath = (\<lambda>p. p)\<rparr>,
       ae_declares = (\<lambda>n c. False), ae_import_modules = (\<lambda>c. [Some ''os'']),
       ae_token_len = (\<lambda>t. Some (length t)), ae_str = (\<lambda>ss ds rs. ''ctx''),
       ae_codec = \<lparr>json_dumps = (\<lambda>p. if p = \<lparr>p_symbols = [\<lparr>sym_name = ''b'', sym_kind = ''Unknown'',
                    sym_location = \<lparr>loc_file = ''a'', loc_line = 1\<rparr>,
                    sym_documentation = ''Symbol b in a''\<rparr>],
       p_dependencies = [\<lparr>dep_module = ''os'', dep_summary = ''Imported by a''\<rparr>],
       p_references = [], p_tokens_saved = 6\<rparr> then Inr ''P1'' else Inl ''TypeError''),
       json_loads = (\<lambda>s. if s = ''P1'' then Inr \<lparr>p_symbols = [\<lparr>sym_name = ''b'', sym_kind = ''Unknown'',
                    sym_location = \<lparr>loc_file = ''a'', loc_line = 1\<rparr>,
                    sym_documentation = ''Symbol b in a''\<rparr>],
       p_dependencies = [\<lparr>dep_module = ''os'', dep_summary = ''Imported by a''\<rparr>],
       p_references = [], p_tokens_saved = 6\<rparr> else Inl ''JSONDecodeError'')\<rparr>,
       ae_sha256_hex = (\<lambda>s. Some s)\<rparr> 0 1
     \<lparr>mg_client = \<lparr>c_servers = Map.empty, c_initialized = False\<rparr>, mg_cache = cache_init 512 14, mg_ws = \<lparr>ws_fs = [''a'' \<mapsto> File ''import os''], ws_root = ''/w'', ws_tree = Dir [] []\<rparr>\<rparr> ''a:b'' ''c'' 4096)
     = Returned
        \<lparr>p_symbols = [\<lparr>sym_name = ''b'', sym_kind = ''Unknown'',
                    sym_location = \<lparr>loc_file = ''a'', loc_line = 1\<rparr>,
                    sym_documentation = ''Symbol b in a''\<rparr>],
       p_dependencies = [\<lparr>dep_module = ''os'', dep_summary = ''Imported by a''\<rparr>],
       p_references = [], p_tokens_saved = 6\<rparr>
   \<and> (0::int) \<le> 6
   \<and> cached_nonneg
     \<lparr>json_dumps = (\<lambda>p. if p = \<lparr>p_symbols = [\<lparr>sym_name = ''b'', sym_kind = ''Unknown'',
                    sym_location = \<lparr>loc_file = ''a'', loc_line = 1\<rparr>,
                    sym_documentation = ''Symbol b in a''\<rparr>],
       p_dependencies = [\<lparr>dep_module = ''os'', dep_summary = ''Imported by a''\<rparr>],
       p_references = [], p_tokens_saved = 6\<rparr> then Inr ''P1'' else Inl ''TypeError''),
       json_loads = (\<lambda>s. if s = ''P1'' then Inr \<lparr>p_symbols = [\<lparr>sym_name = ''b'', sym_kind = ''Unknown'',
                    sym_location = \<lparr>loc_file = ''a'', loc_line = 1\<rparr>,
                    sym_documentation = ''Symbol b in a''\<rparr>],
       p_dependencies = [\<lparr>dep_module = ''os'', dep_summary = ''Imported by a''\<rparr>],
       p_references = [], p_tokens_saved = 6\<rparr> else Inl ''JSONDecodeError'')\<rparr>
     (mg_cache (snd (get_context
     \<lparr>ae_lsp = \<lparr>le_spawn = (\<lambda>cmd. Inl ''FileNotFoundError''), le_abspath = (\<lambda>p. p)\<rparr>,
       ae_declares = (\<lambda>n c. False), ae_import_modules = (\<lambda>c. [Some ''os'']),
       ae_token_len = (\<lambda>t. Some (length t)), ae_str = (\<lambda>ss ds rs. ''ctx''),
       ae_codec = \<lparr>json_dumps = (\<lambda>p. if p = \<lparr>p_symbols = [\<lparr>sym_name = ''b'', sym_kind = ''Unknown'',
                    sym_location = \<lparr>loc_file = ''a'', loc_line = 1\<rparr>,
                    sym_documentation = ''Symbol b in a''\<rparr>],
       p_dependencies = [\<lparr>dep_module = ''os'', dep_summary = ''Imported by a''\<rparr>],
       p_references = [], p_tokens_saved = 6\<rparr> then Inr ''P1'' else Inl ''TypeError''),
       json_loads = (\<lambda>s. if s = ''P1'' then Inr \<lparr>p_symbols = [\<lparr>sym_name = ''b'', sym_kind = ''Unknown'',
                    sym_location = \<lparr>loc_file = ''a'', loc_line = 1\<rparr>,
                    sym_documentation = ''Symbol b in a''\<rparr>],
       p_dependencies = [\<lparr>dep_module = ''os'', dep_summary = ''Imported by a''\<rparr>],
       p_references = [], p_tokens_saved = 6\<rparr> else Inl ''JSONDecodeError'')\<rparr>,
       ae_sha256_hex = (\<lambda>s. Some s)\<rparr> 0 1
     \<lparr>mg_client = \<lparr>c_servers = Map.empty, c_initialized = False\<rparr>, mg_cache = cache_init 512 14, mg_ws = \<lparr>ws_fs = [''a'' \<mapsto> File ''import os''], ws_root = ''/w'', ws_tree = Dir [] []\<rparr>\<rparr> ''a:b'' ''c'' 4096)))"
proof -
  let ?cd = "\<lparr>json_dumps = (\<lambda>p. if p = \<lparr>p_symbols = [\<lparr>sym_name = ''b'', sym_kind = ''Unknown'',
                    sym_location = \<lparr>loc_file = ''a'', loc_line = 1\<rparr>,
                    sym_documentation = ''Symbol b in a''\<rparr>],
       p_dependencies = [\<lparr>dep_module = ''os'', dep_summary = ''Imported by a''\<rparr>],
       p_references = [], p_tokens_saved = 6\<rparr> then Inr ''P1'' else Inl ''TypeError''),
       json_loads = (\<lambda>s. if s = ''P1'' then Inr \<lparr>p_symbols = [\<lparr>sym_name = ''b'', sym_kind = ''Unknown'',
                    sym_location = \<lparr>loc_file = ''a'', loc_line = 1\<rparr>,
                    sym_documentation = ''Symbol b in a''\<rparr>],
       p_dependencies = [\<lparr>dep_module = ''os'', dep_summary = ''Imported by a''\<rparr>],
       p_references = [], p_tokens_saved = 6\<rparr> else Inl ''JSONDecodeError'')\<rparr>"
  let ?env = "\<lparr>ae_lsp = \<lparr>le_spawn = (\<lambda>cmd. Inl ''FileNotFoundError''), le_abspath = (\<lambda>p. p)\<rparr>,
       ae_declares = (\<lambda>n c. False), ae_import_modules = (\<lambda>c. [Some ''os'']),
       ae_token_len = (\<lambda>t. Some (length t)), ae_str = (\<lambda>ss ds rs. ''ctx''),
       ae_codec = \<lparr>json_dumps = (\<lambda>p. if p = \<lparr>p_symbols = [\<lparr>sym_name = ''b'', sym_kind = ''Unknown'',
                    sym_location = \<lparr>loc_file = ''a'', loc_line = 1\<rparr>,
                    sym_documentation = ''Symbol b in a''\<rparr>],
       p_dependencies = [\<lparr>dep_module = ''os'', dep_summary = ''Imported by a''\<rparr>],
       p_references = [], p_tokens_saved = 6\<rparr> then Inr ''P1'' else Inl ''TypeError''),
       json_loads = (\<lambda>s. if s = ''P1'' then Inr \<lparr>p_symbols = [\<lparr>sym_name = ''b'', sym_kind = ''Unknown'',
                    sym_location = \<lparr>loc_file = ''a'', loc_line = 1\<rparr>,
                    sym_documentation = ''Symbol b in a''\<rparr>],
       p_dependencies = [\<lparr>dep_module = ''os'', dep_summary = ''Imported by a''\<rparr>],
       p_references = [], p_tokens_saved = 6\<rparr> else Inl ''JSONDecodeError'')\<rparr>,
       ae_sha256_hex = (\<lambda>s. Some s)\<rparr>"
  let ?m = "\<lparr>mg_client = \<lparr>c_servers = Map.empty, c_initialized = False\<rparr>, mg_cache = cache_init 512 14, mg_ws = \<lparr>ws_fs = [''a'' \<mapsto> File ''import os''], ws_root = ''/w'', ws_tree = Dir [] []\<rparr>\<rparr>"
  have rt: "round_trips ?cd" by (simp add: round_trips_def)
  have rt': "round_trips (ae_codec ?env)" using rt by simp
  have inv: "cached_nonneg ?cd (cache_init 512 14)"
    by (simp add: cached_nonneg_def cache_init_def)
  have inv': "cached_nonneg (ae_codec ?env) (mg_cache ?m)" using inv by simp
  have run: "fst (get_context ?env 0 1 ?m ''a:b'' ''c'' 4096)
               = Returned \<lparr>p_symbols = [\<lparr>sym_name = ''b'', sym_kind = ''Unknown'',
                    sym_location = \<lparr>loc_file = ''a'', loc_line = 1\<rparr>,
                    sym_documentation = ''Symbol b in a''\<rparr>],
       p_dependencies = [\<lparr>dep_module = ''os'', dep_summary = ''Imported by a''\<rparr>],
       p_references = [], p_tokens_saved = 6\<rparr>"
    using sample_context by simp
  from tokens_saved_floor [OF rt' inv', of 0 1 "''a:b''" "''c''" 4096
         "\<lparr>p_symbols = [\<lparr>sym_name = ''b'', sym_kind = ''Unknown'',
                    sym_location = \<lparr>loc_file = ''a'', loc_line = 1\<rparr>,
                    sym_documentation = ''Symbol b in a''\<rparr>],
       p_dependencies = [\<lparr>dep_module = ''os'', dep_summary = ''Imported by a''\<rparr>],
       p_references = [], p_tokens_saved = 6\<rparr>"] run rt inv
  show ?thesis by simp
qed

lemma cache_get_fields:
  "tc_maxsize (snd (cache_get cd t c key)) = tc_maxsize c
   \<and> tc_ttl (snd (cache_get cd t c key)) = tc_ttl c"
proof -
  have "tc_maxsize (snd (ttl_get t c key)) = tc_maxsize c
        \<and> tc_ttl (snd (ttl_get t c key)) = tc_ttl c"
    by (simp add: ttl_get_def split: option.splits)
  moreover obtain x c' where g: "ttl_get t c key = (x, c')" by (cases "ttl_get t c key")
  moreover have "snd (cache_get cd t c key) = c'"
    using g by (cases x) (simp_all add: cache_get_def split: sum.splits)
  ultimately show ?thesis by simp
qed

lemma cache_hit_after_set:
  assumes "cache_ok c"
      and "json_dumps cd v = Inr s" and "s \<noteq> []" and "json_loads cd s = Inr v"
      and "get_size s \<le> tc_maxsize c"
      and "t' < t + real_of_int (tc_ttl c)"
  shows "fst (cache_get cd t' (snd (cache_set cd t c key v)) key) = Some v"
proof -
  from ttl_setitem_fits [OF assms(1) assms(5), of t key]
  obtain c2 where st: "ttl_setitem t c key s = (None, store t c2 key s)"
    and ttl: "tc_ttl c2 = tc_ttl c"
    by blast
  have stored: "snd (cache_set cd t c key v) = store t c2 key s"
    using assms(2) st by (simp add: cache_set_def)
  have "t' < t + real_of_int (tc_ttl c2)" using ttl assms(6) by simp
  then have "fst (ttl_get t' (store t c2 key s) key) = Some s"
    by (rule ttl_get_after_store)
  then obtain c3 where "ttl_get t' (store t c2 key s) key = (Some s, c3)"
    by (cases "ttl_get t' (store t c2 key s) key") auto
  then have "fst (cache_get cd t' (store t c2 key s) key) = Some v"
    using assms(3) assms(4) by (simp add: cache_get_def)
  with stored show ?thesis by simp
qed

lemma get_context_stores:
  assumes "generate_cache_key env query scope max_tokens = Some key"
      and "fst (cache_get (ae_codec env) t_get (mg_cache m) key) = None"
      and "fst (resolve_file env (mg_ws m) query) \<noteq> None"
      and "fst (get_context env t_get t_set m query scope max_tokens) = Returned p"
  shows "mg_cache (snd (get_context env t_get t_set m query scope max_tokens))
           = snd (cache_set (ae_codec env) t_set
                    (snd (cache_get (ae_codec env) t_get (mg_cache m) key)) key p)"
proof -
  let ?run = "get_context env t_get t_set m query scope max_tokens"
  obtain cache1 where cg: "cache_get (ae_codec env) t_get (mg_cache m) key = (None, cache1)"
    using assms(2) by (cases "cache_get (ae_codec env) t_get (mg_cache m) key") simp
  obtain file_path symbol_name where
    rf: "resolve_file env (mg_ws m) query = (Some file_path, symbol_name)"
    using assms(3) by (cases "resolve_file env (mg_ws m) query") auto
  from get_context_miss_cases [OF assms(1) cg rf, of t_set]
  show ?thesis
  proof
    assume "\<exists>symbols c1 references c2 optimized.
        extract_symbols env (ws_fs (mg_ws m)) (mg_client m) file_path symbol_name scope
          = (Returned symbols, c1)
        \<and> extract_references env c1 symbols = (Returned references, c2)
        \<and> count_tokens env symbols (extract_dependencies env (ws_fs (mg_ws m)) symbols)
             references = Some optimized"
    then obtain symbols c1 references c2 optimized where
      es: "extract_symbols env (ws_fs (mg_ws m)) (mg_client m) file_path symbol_name scope
             = (Returned symbols, c1)"
      and er: "extract_references env c1 symbols = (Returned references, c2)"
      and ct: "count_tokens env symbols (extract_dependencies env (ws_fs (mg_ws m)) symbols)
                 references = Some optimized"
      by blast
    from get_context_computed [OF assms(1) cg rf es er ct, of t_set] cg assms(4)
    show ?thesis by auto
  next
    assume "mg_cache (snd ?run) = cache1 \<and> (\<forall>p. fst ?run \<noteq> Returned p)"
    with assms(4) show ?thesis by simp
  qed
qed

text \<open>
  Claim C9. The key is the hash of the query, the scope and the token budget
  joined by colons, so the request with query \<open>a:b\<close> and scope \<open>c\<close> and the
  request with query \<open>a\<close> and scope \<open>b:c\<close> have the same key, the hash of
  one and the same text, under every hash function and every budget, though
  they differ. Whenever two requests have the same key and the first is
  computed and stored (the lookup misses, a file is resolved, the payload
  serializes to a text that fits the cache), the second, made before the
  entry's lifetime is over, is answered with the payload of the first.
\<close>

theorem cache_key_collision:
  "generate_cache_key env ''a:b'' ''c'' max_tokens
     = ae_sha256_hex env (''a:b:c:'' @ str_int max_tokens)
   \<and> generate_cache_key env ''a'' ''b:c'' max_tokens
     = ae_sha256_hex env (''a:b:c:'' @ str_int max_tokens)
   \<and> (''a:b'', ''c'', max_tokens) \<noteq> (''a'', ''b:c'', max_tokens)
   \<and> (generate_cache_key env query1 scope1 max1 = Some key
       \<and> generate_cache_key env query2 scope2 max2 = Some key
       \<and> cache_ok (mg_cache m)
       \<and> fst (cache_get (ae_codec env) t1 (mg_cache m) key) = None
       \<and> fst (resolve_file env (mg_ws m) query1) \<noteq> None
       \<and> fst (get_context env t1 t1' m query1 scope1 max1) = Returned p
       \<and> json_dumps (ae_codec env) p = Inr s \<and> s \<noteq> [] \<and> json_loads (ae_codec env) s = Inr p
       \<and> get_size s \<le> tc_maxsize (mg_cache m)
       \<and> t2 < t1' + real_of_int (tc_ttl (mg_cache m))
      \<longrightarrow> fst (get_context env t2 t2' (snd (get_context env t1 t1' m query1 scope1 max1))
                  query2 scope2 max2) = Returned p)"
proof -
  have same1: "generate_cache_key env ''a:b'' ''c'' max_tokens
                = ae_sha256_hex env (''a:b:c:'' @ str_int max_tokens)"
    by (simp add: generate_cache_key_def)
  have same2: "generate_cache_key env ''a'' ''b:c'' max_tokens
                = ae_sha256_hex env (''a:b:c:'' @ str_int max_tokens)"
    by (simp add: generate_cache_key_def)
  have differ: "(''a:b'', ''c'', max_tokens) \<noteq> (''a'', ''b:c'', max_tokens)" by simp
  have served: "fst (get_context env t2 t2' (snd (get_context env t1 t1' m query1 scope1 max1))
                  query2 scope2 max2) = Returned p"
    if key1: "generate_cache_key env query1 scope1 max1 = Some key"
      and key2: "generate_cache_key env query2 scope2 max2 = Some key"
      and ok: "cache_ok (mg_cache m)"
      and miss: "fst (cache_get (ae_codec env) t1 (mg_cache m) key) = None"
      and found: "fst (resolve_file env (mg_ws m) query1) \<noteq> None"
      and run: "fst (get_context env t1 t1' m query1 scope1 max1) = Returned p"
      and enc: "json_dumps (ae_codec env) p = Inr s" "s \<noteq> []" "json_loads (ae_codec env) s = Inr p"
      and fits: "get_size s \<le> tc_maxsize (mg_cache m)"
      and live: "t2 < t1' + real_of_int (tc_ttl (mg_cache m))"
  proof -
    let ?cache1 = "snd (cache_get (ae_codec env) t1 (mg_cache m) key)"
    let ?m' = "snd (get_context env t1 t1' m query1 scope1 max1)"
    have stored: "mg_cache ?m' = snd (cache_set (ae_codec env) t1' ?cache1 key p)"
      using key1 miss found run by (rule get_context_stores)
    have ok1: "cache_ok ?cache1" using ok by (rule cache_get_ok)
    have fits1: "get_size s \<le> tc_maxsize ?cache1"
      using fits cache_get_fields [of "ae_codec env" t1 "mg_cache m" key] by simp
    have live1: "t2 < t1' + real_of_int (tc_ttl ?cache1)"
      using live cache_get_fields [of "ae_codec env" t1 "mg_cache m" key] by simp
    have "fst (cache_get (ae_codec env) t2
                 (snd (cache_set (ae_codec env) t1' ?cache1 key p)) key) = Some p"
      using ok1 enc fits1 live1 by (rule cache_hit_after_set)
    with stored
    have "fst (cache_get (ae_codec env) t2 (mg_cache ?m') key) = Some p"
      by simp
    then obtain cache2 where
      "cache_get (ae_codec env) t2 (mg_cache ?m') key = (Some p, cache2)"
      by (cases "cache_get (ae_codec env) t2 (mg_cache ?m') key") auto
    from get_context_hit [OF key2 this, of t2'] show ?thesis by simp
  qed
  from same1 same2 differ served show ?thesis by blast
qed

theorem cache_key_collision_witness:
  "fst (get_context
     \<lparr>ae_lsp = \<lparr>le_spawn = (\<lambda>cmd. Inl ''FileNotFoundError''), le_abspath = (\<lambda>p. p)\<rparr>,
       ae_declares = (\<lambda>n c. False), ae_import_modules = (\<lambda>c. [Some ''os'']),
       ae_token_len = (\<lambda>t. Some (length t)), ae_str = (\<lambda>ss ds rs. ''ctx''),
       ae_codec = \<lparr>json_dumps = (\<lambda>p. if p = \<lparr>p_symbols = [\<lparr>sym_name = ''b'', sym_kind = ''Unknown'',
                    sym_location = \<lparr>loc_file = ''a'', loc_line = 1\<rparr>,
                    sym_documentation = ''Symbol b in a''\<rparr>],
       p_dependencies = [\<lparr>dep_module = ''os'', dep_summary = ''Imported by a''\<rparr>],
       p_references = [], p_tokens_saved = 6\<rparr> then Inr ''P1'' else Inl ''TypeError''),
       json_loads = (\<lambda>s. if s = ''P1'' then Inr \<lparr>p_symbols = [\<lparr>sym_name = ''b'', sym_kind = ''Unknown'',
                    sym_location = \<lparr>loc_file = ''a'', loc_line = 1\<rparr>,
                    sym_documentation = ''Symbol b in a''\<rparr>],
       p_dependencies = [\<lparr>dep_module = ''os'', dep_summary = ''Imported by a''\<rparr>],
       p_references = [], p_tokens_saved = 6\<rparr> else Inl ''JSONDecodeError'')\<rparr>,
       ae_sha256_hex = (\<lambda>s. Some s)\<rparr> 0 1
     \<lparr>mg_client = \<lparr>c_servers = Map.empty, c_initialized = False\<rparr>, mg_cache = cache_init 512 14, mg_ws = \<lparr>ws_fs = [''a'' \<mapsto> File ''import os''], ws_root = ''/w'', ws_tree = Dir [] []\<rparr>\<rparr> ''a:b'' ''c'' 4096)
     = Returned
        \<lparr>p_symbols = [\<lparr>sym_name = ''b'', sym_kind = ''Unknown'',
                    sym_location = \<lparr>loc_file = ''a'', loc_line = 1\<rparr>,
                    sym_documentation = ''Symbol b in a''\<rparr>],
       p_dependencies = [\<lparr>dep_module = ''os'', dep_summary = ''Imported by a''\<rparr>],
       p_references = [], p_tokens_saved = 6\<rparr>
   \<and> fst (get_context
     \<lparr>ae_lsp = \<lparr>le_spawn = (\<lambda>cmd. Inl ''FileNotFoundError''), le_abspath = (\<lambda>p. p)\<rparr>,
       ae_declares = (\<lambda>n c. False), ae_import_modules = (\<lambda>c. [Some ''os'']),
       ae_token_len = (\<lambda>t. Some (length t)), ae_str = (\<lambda>ss ds rs. ''ctx''),
       ae_codec = \<lparr>json_dumps = (\<lambda>p. if p = \<lparr>p_symbols = [\<lparr>sym_name = ''b'', sym_kind = ''Unknown'',
                    sym_location = \<lparr>loc_file = ''a'', loc_line = 1\<rparr>,
                    sym_documentation = ''Symbol b in a''\<rparr>],
       p_dependencies = [\<lparr>dep_module = ''os'', dep_summary = ''Imported by a''\<rparr>],
       p_references = [], p_tokens_saved = 6\<rparr> then Inr ''P1'' else Inl ''TypeError''),
       json_loads = (\<lambda>s. if s = ''P1'' then Inr \<lparr>p_symbols = [\<lparr>sym_name = ''b'', sym_kind = ''Unknown'',
                    sym_location = \<lparr>loc_file = ''a'', loc_line = 1\<rparr>,
                    sym_documentation = ''Symbol b in a''\<rparr>],
       p_dependencies = [\<lparr>dep_module = ''os'', dep_summary = ''Imported by a''\<rparr>],
       p_references = [], p_tokens_saved = 6\<rparr> else Inl ''JSONDecodeError'')\<rparr>,
       ae_sha256_hex = (\<lambda>s. Some s)\<rparr> 2 3
     \<lparr>mg_client = \<lparr>c_servers = Map.empty, c_initialized = False\<rparr>, mg_cache = cache_init 512 14, mg_ws = \<lparr>ws_fs = [''a'' \<mapsto> File ''import os''], ws_root = ''/w'', ws_tree = Dir [] []\<rparr>\<rparr> ''a'' ''b:c'' 4096)
     = Returned empty_result
   \<and> fst (get_context
     \<lparr>ae_lsp = \<lparr>le_spawn = (\<lambda>cmd. Inl ''FileNotFoundError''), le_abspath = (\<lambda>p. p)\<rparr>,
       ae_declares = (\<lambda>n c. False), ae_import_modules = (\<lambda>c. [Some ''os'']),
       ae_token_len = (\<lambda>t. Some (length t)), ae_str = (\<lambda>ss ds rs. ''ctx''),
       ae_codec = \<lparr>json_dumps = (\<lambda>p. if p = \<lparr>p_symbols = [\<lparr>sym_name = ''b'', sym_kind = ''Unknown'',
                    sym_location = \<lparr>loc_file = ''a'', loc_line = 1\<rparr>,
                    sym_documentation = ''Symbol b in a''\<rparr>],
       p_dependencies = [\<lparr>dep_module = ''os'', dep_summary = ''Imported by a''\<rparr>],
       p_references = [], p_tokens_saved = 6\<rparr> then Inr ''P1'' else Inl ''TypeError''),
       json_loads = (\<lambda>s. if s = ''P1'' then Inr \<lparr>p_symbols = [\<lparr>sym_name = ''b'', sym_kind = ''Unknown'',
                    sym_location = \<lparr>loc_file = ''a'', loc_line = 1\<rparr>,
                    sym_documentation = ''Symbol b in a''\<rparr>],
       p_dependencies = [\<lparr>dep_module = ''os'', dep_summary = ''Imported by a''\<rparr>],
       p_references = [], p_tokens_saved = 6\<rparr> else Inl ''JSONDecodeError'')\<rparr>,
       ae_sha256_hex = (\<lambda>s. Some s)\<rparr> 2 3
     (snd (get_context
     \<lparr>ae_lsp = \<lparr>le_spawn = (\<lambda>cmd. Inl ''FileNotFoundError''), le_abspath = (\<lambda>p. p)\<rparr>,
       ae_declares = (\<lambda>n c. False), ae_import_modules = (\<lambda>c. [Some ''os'']),
       ae_token_len = (\<lambda>t. Some (length t)), ae_str = (\<lambda>ss ds rs. ''ctx''),
       ae_codec = \<lparr>json_dumps = (\<lambda>p. if p = \<lparr>p_symbols = [\<lparr>sym_name = ''b'', sym_kind = ''Unknown'',
                    sym_location = \<lparr>loc_file = ''a'', loc_line = 1\<rparr>,
                    sym_documentation = ''Symbol b in a''\<rparr>],
       p_dependencies = [\<lparr>dep_module = ''os'', dep_summary = ''Imported by a''\<rparr>],
       p_references = [], p_tokens_saved = 6\<rparr> then Inr ''P1'' else Inl ''TypeError''),
       json_loads = (\<lambda>s. if s = ''P1'' then Inr \<lparr>p_symbols = [\<lparr>sym_name = ''b'', sym_kind = ''Unknown'',
                    sym_location = \<lparr>loc_file = ''a'', loc_line = 1\<rparr>,
                    sym_documentation = ''Symbol b in a''\<rparr>],
       p_dependencies = [\<lparr>dep_module = ''os'', dep_summary = ''Imported by a''\<rparr>],
       p_references = [], p_tokens_saved = 6\<rparr> else Inl ''JSONDecodeError'')\<rparr>,
       ae_sha256_hex = (\<lambda>s. Some s)\<rparr> 0 1
     \<lparr>mg_client = \<lparr>c_servers = Map.empty, c_initialized = False\<rparr>, mg_cache = cache_init 512 14, mg_ws = \<lparr>ws_fs = [''a'' \<mapsto> File ''import os''], ws_root = ''/w'', ws_tree = Dir [] []\<rparr>\<rparr> ''a:b'' ''c'' 4096)) ''a'' ''b:c'' 4096)
     = Returned
        \<lparr>p_symbols = [\<lparr>sym_name = ''b'', sym_kind = ''Unknown'',
                    sym_location = \<lparr>loc_file = ''a'', loc_line = 1\<rparr>,
                    sym_documentation = ''Symbol b in a''\<rparr>],
       p_dependencies = [\<lparr>dep_module = ''os'', dep_summary = ''Imported by a''\<rparr>],
       p_references = [], p_tokens_saved = 6\<rparr>"
proof -
  let ?cd = "\<lparr>json_dumps = (\<lambda>p. if p = \<lparr>p_symbols = [\<lparr>sym_name = ''b'', sym_kind = ''Unknown'',
                    sym_location = \<lparr>loc_file = ''a'', loc_line = 1\<rparr>,
                    sym_documentation = ''Symbol b in a''\<rparr>],
       p_dependencies = [\<lparr>dep_module = ''os'', dep_summary = ''Imported by a''\<rparr>],
       p_references = [], p_tokens_saved = 6\<rparr> then Inr ''P1'' else Inl ''TypeError''),
       json_loads = (\<lambda>s. if s = ''P1'' then Inr \<lparr>p_symbols = [\<lparr>sym_name = ''b'', sym_kind = ''Unknown'',
                    sym_location = \<lparr>loc_file = ''a'', loc_line = 1\<rparr>,
                    sym_documentation = ''Symbol b in a''\<rparr>],
       p_dependencies = [\<lparr>dep_module = ''os'', dep_summary = ''Imported by a''\<rparr>],
       p_references = [], p_tokens_saved = 6\<rparr> else Inl ''JSONDecodeError'')\<rparr>"
  let ?env = "\<lparr>ae_lsp = \<lparr>le_spawn = (\<lambda>cmd. Inl ''FileNotFoundError''), le_abspath = (\<lambda>p. p)\<rparr>,
       ae_declares = (\<lambda>n c. False), ae_import_modules = (\<lambda>c. [Some ''os'']),
       ae_token_len = (\<lambda>t. Some (length t)), ae_str = (\<lambda>ss ds rs. ''ctx''),
       ae_codec = \<lparr>json_dumps = (\<lambda>p. if p = \<lparr>p_symbols = [\<lparr>sym_name = ''b'', sym_kind = ''Unknown'',
                    sym_location = \<lparr>loc_file = ''a'', loc_line = 1\<rparr>,
                    sym_documentation = ''Symbol b in a''\<rparr>],
       p_dependencies = [\<lparr>dep_module = ''os'', dep_summary = ''Imported by a''\<rparr>],
       p_references = [], p_tokens_saved = 6\<rparr> then Inr ''P1'' else Inl ''TypeError''),
       json_loads = (\<lambda>s. if s = ''P1'' then Inr \<lparr>p_symbols = [\<lparr>sym_name = ''b'', sym_kind = ''Unknown'',
                    sym_location = \<lparr>loc_file = ''a'', loc_line = 1\<rparr>,
                    sym_documentation = ''Symbol b in a''\<rparr>],
       p_dependencies = [\<lparr>dep_module = ''os'', dep_summary = ''Imported by a''\<rparr>],
       p_references = [], p_tokens_saved = 6\<rparr> else Inl ''JSONDecodeError'')\<rparr>,
       ae_sha256_hex = (\<lambda>s. Some s)\<rparr>"
  let ?ws = "\<lparr>ws_fs = [''a'' \<mapsto> File ''import os''], ws_root = ''/w'', ws_tree = Dir [] []\<rparr>"
  let ?m = "\<lparr>mg_client = \<lparr>c_servers = Map.empty, c_initialized = False\<rparr>, mg_cache = cache_init 512 14, mg_ws = \<lparr>ws_fs = [''a'' \<mapsto> File ''import os''], ws_root = ''/w'', ws_tree = Dir [] []\<rparr>\<rparr>"
  let ?p = "\<lparr>p_symbols = [\<lparr>sym_name = ''b'', sym_kind = ''Unknown'',
                    sym_location = \<lparr>loc_file = ''a'', loc_line = 1\<rparr>,
                    sym_documentation = ''Symbol b in a''\<rparr>],
       p_dependencies = [\<lparr>dep_module = ''os'', dep_summary = ''Imported by a''\<rparr>],
       p_references = [], p_tokens_saved = 6\<rparr>"
  have run: "fst (get_context ?env 0 1 ?m ''a:b'' ''c'' 4096) = Returned ?p"
    using sample_context by simp
  have key: "generate_cache_key ?env ''a:b'' ''c'' 4096 = Some ''a:b:c:4096''"
    using sample_context by simp
  have key2: "generate_cache_key ?env ''a'' ''b:c'' 4096 = Some ''a:b:c:4096''"
    by (simp add: generate_cache_key_def str_int_def)
  have ok: "cache_ok (mg_cache ?m)" by (simp add: cache_ok_def cache_init_def)
  have miss: "fst (cache_get (ae_codec ?env) 0 (mg_cache ?m) ''a:b:c:4096'') = None"
    using sample_context by simp
  have found: "fst (resolve_file ?env (mg_ws ?m) ''a:b'') \<noteq> None"
    using sample_context by simp
  have enc: "json_dumps (ae_codec ?env) ?p = Inr ''P1''" by simp
  have ne: "''P1'' \<noteq> []" by simp
  have dec: "json_loads (ae_codec ?env) ''P1'' = Inr ?p" by simp
  have fits: "get_size ''P1'' \<le> tc_maxsize (mg_cache ?m)"
    by (simp add: get_size_def cache_init_def)
  have live: "(2::real) < 1 + real_of_int (tc_ttl (mg_cache ?m))"
    by (simp add: cache_init_def)
  have miss2: "cache_get (ae_codec ?env) 2 (mg_cache ?m) ''a:b:c:4096''
                 = (None, cache_init 512 14)"
    by (simp add: cache_get_def ttl_get_def cache_init_def)
  have none: "resolve_file ?env (mg_ws ?m) ''a'' = (None, ''a'')"
    by (simp add: resolve_file_def parse_query_def find_symbol_file_def)
  have fresh: "fst (get_context ?env 2 3 ?m ''a'' ''b:c'' 4096) = Returned empty_result"
    using get_context_no_file [OF key2 miss2 none, of 3] by simp
  from cache_key_collision [of ?env 4096 "''a:b''" "''c''" 4096 "''a:b:c:4096''"
         "''a''" "''b:c''" 4096 ?m 0 1 ?p "''P1''" 2 3]
       key key2 ok miss found run enc ne dec fits live
  have "fst (get_context ?env 2 3 (snd (get_context ?env 0 1 ?m ''a:b'' ''c'' 4096))
               ''a'' ''b:c'' 4096) = Returned ?p"
    by blast
  with run fresh show ?thesis by simp
qed

end
